theory Spec2Isabelle
  imports
    Complex_Main
    "HOL-Library.Multiset"
    "HOL-Library.Char_ord"
    "HOL-Library.List_Lexorder"
    "HOL-Library.Product_Lexorder"
begin

section \<open>The education dashboard: data model\<close>

text \<open>
  The repository is two Streamlit scripts, \<^verbatim>\<open>app.py\<close> and \<^verbatim>\<open>heatmap.py\<close>, over one
  pandas DataFrame read from \<^verbatim>\<open>cleaned_world_education_data.csv\<close>. The computation is
  the pandas expressions of the scripts; each is embedded below as a HOL function on
  frames, with the library behaviour it relies on written out.

  A cell of a pandas column may be missing (NaN, or NaT in a datetime column); a missing
  cell is \<open>None\<close>. A numeric cell that is present holds a float64, modelled as the
  real number it denotes; every arithmetic operation rounds its exact result to
  float64.
\<close>

type_synonym cell = "real option"

subsection \<open>float64 rounding\<close>

text \<open>
  \<open>float64 x\<close> is the double nearest to \<open>x\<close>: \<open>\<bar>x\<bar>\<close> is scaled to \<open>m * 2 ^ e\<close> with
  \<open>2 ^ 52 \<le> m < 2 ^ 53\<close>, and \<open>m\<close> is rounded to the nearest integer, a tie going to the
  even one (IEEE 754 round-to-nearest-even on a 53-bit significand). The exponent is not
  bounded: overflow to infinity and the reduced precision of subnormal numbers are
  outside the model.
\<close>

definition round_half_even :: "real \<Rightarrow> int" where
  "round_half_even x =
     (let f = \<lfloor>x\<rfloor>; r = x - of_int f
      in if r < 1 / 2 then f else if 1 / 2 < r then f + 1 else if even f then f else f + 1)"

function scale_down :: "real \<Rightarrow> int \<Rightarrow> real \<times> int" where
  "scale_down m e = (if 2 ^ 53 \<le> m then scale_down (m / 2) (e + 1) else (m, e))"
  by pat_completeness auto
termination
proof (relation "measure (\<lambda>(m, e). nat \<lfloor>m\<rfloor>)")
  show "wf (measure (\<lambda>(m, e). nat \<lfloor>m\<rfloor>))" by simp
next
  fix m :: real and e :: int
  assume h: "2 ^ 53 \<le> m"
  then have "m / 2 \<le> m - 1" by simp
  then have "\<lfloor>m / 2\<rfloor> \<le> \<lfloor>m - 1\<rfloor>" by (rule floor_mono)
  moreover have "0 < \<lfloor>m\<rfloor>" using h by (simp add: floor_less_iff less_floor_iff)
  ultimately show "((m / 2, e + 1), (m, e)) \<in> measure (\<lambda>(m, e). nat \<lfloor>m\<rfloor>)"
    by simp
qed

function scale_up :: "real \<Rightarrow> int \<Rightarrow> real \<times> int" where
  "scale_up m e = (if 0 < m \<and> m < 2 ^ 52 then scale_up (2 * m) (e - 1) else (m, e))"
  by pat_completeness auto
termination
proof (relation "measure (\<lambda>(m, e). nat \<lceil>2 ^ 52 / m\<rceil>)")
  show "wf (measure (\<lambda>(m, e). nat \<lceil>2 ^ 52 / m\<rceil>))" by simp
next
  fix m :: real and e :: int
  assume h: "0 < m \<and> m < 2 ^ 52"
  define y where "y = 2 ^ 52 / m"
  have y: "1 < y" using h by (simp add: y_def)
  have half: "2 ^ 52 / (2 * m) = y / 2" by (simp add: y_def)
  have "\<lceil>y / 2\<rceil> < \<lceil>y\<rceil>"
  proof (cases "2 \<le> y")
    case True
    have "\<lceil>y / 2\<rceil> < y / 2 + 1" by linarith
    also have "\<dots> \<le> y" using True by simp
    also have "\<dots> \<le> \<lceil>y\<rceil>" by linarith
    finally show ?thesis by simp
  next
    case False
    then have "\<lceil>y / 2\<rceil> \<le> 1" by (simp add: ceiling_le_iff)
    moreover have "2 \<le> \<lceil>y\<rceil>" using y by linarith
    ultimately show ?thesis by linarith
  qed
  then have lt: "\<lceil>2 ^ 52 / (2 * m)\<rceil> < \<lceil>2 ^ 52 / m\<rceil>"
    by (simp only: half y_def [symmetric])
  have "0 < \<lceil>y\<rceil>" using y by linarith
  then have pos: "0 < \<lceil>2 ^ 52 / m\<rceil>"
    by (simp only: y_def)
  from lt pos show "((2 * m, e - 1), (m, e)) \<in> measure (\<lambda>(m, e). nat \<lceil>2 ^ 52 / m\<rceil>)"
    by simp
qed

text \<open>NaN-free float64 rounding of a real number.\<close>

definition float64 :: "real \<Rightarrow> real" where
  "float64 x =
     (if x = 0 then 0
      else (case scale_down \<bar>x\<bar> 0 of (m1, e1) \<Rightarrow>
             (case scale_up m1 e1 of (m, e) \<Rightarrow>
                sgn x * of_int (round_half_even m) * 2 powi e)))"

text \<open>
  One row of the DataFrame. \<open>country\<close> is the text column \<^verbatim>\<open>country\<close>; \<open>year\<close> is
  \<^verbatim>\<open>data['year'].dt.year\<close>, the calendar year of the datetime that \<^verbatim>\<open>load_data\<close>
  stores; \<open>vals r c\<close> is the cell of the numeric column labelled \<open>c\<close>.
\<close>

record row =
  country :: "string option"
  year :: "int option"
  vals :: "string \<Rightarrow> cell"

text \<open>
  A DataFrame: the labels of its numeric columns, in order, and its rows, in order.
  The columns \<^verbatim>\<open>country\<close> and \<^verbatim>\<open>year\<close> are fields of every row: \<^verbatim>\<open>load_data\<close> assigns
  \<^verbatim>\<open>data['year']\<close>, and \<^verbatim>\<open>app.py\<close> reads \<^verbatim>\<open>data['country']\<close> (line 37) and
  \<^verbatim>\<open>data['year']\<close> (lines 39-40) for its widgets before any filtering takes place, so a
  run that reaches line 49 has both.
\<close>

record frame =
  columns :: "string list"
  rows :: "row list"

text \<open>The Python exceptions that the modelled statements can raise.\<close>

datatype py_error =
  KeyError string
  | NameError string
  | StreamlitAPIException

section \<open>pandas primitives used by the scripts\<close>

text \<open>\<^verbatim>\<open>Series.isin(values)\<close>: a missing cell is in no list of strings.\<close>

definition isin :: "string option list \<Rightarrow> string list \<Rightarrow> bool list" where
  "isin s vs = map (\<lambda>c. case c of None \<Rightarrow> False | Some x \<Rightarrow> x \<in> set vs) s"

text \<open>\<^verbatim>\<open>Series.between(left, right)\<close>, inclusive on both sides; False on a missing cell.\<close>

definition between :: "int option list \<Rightarrow> int \<Rightarrow> int \<Rightarrow> bool list" where
  "between s left right =
     map (\<lambda>c. case c of None \<Rightarrow> False | Some y \<Rightarrow> left \<le> y \<and> y \<le> right) s"

text \<open>\<^verbatim>\<open>mask1 & mask2\<close> on two boolean Series over the same index.\<close>

definition mask_and :: "bool list \<Rightarrow> bool list \<Rightarrow> bool list" where
  "mask_and m1 m2 = map (\<lambda>(a, b). a \<and> b) (zip m1 m2)"

text \<open>
  \<^verbatim>\<open>df[mask]\<close>: the rows at which the mask is True, in their order, as a new frame with
  the same columns.
\<close>

definition getitem_mask :: "frame \<Rightarrow> bool list \<Rightarrow> frame" where
  "getitem_mask df m = df\<lparr>rows := map fst (filter snd (zip (rows df) m))\<rparr>"

section \<open>Filter\<close>

text \<open>
  \<^verbatim>\<open>app.py\<close>, lines 49-50:
  \<^verbatim>\<open>filtered_data = data[(data['country'].isin(countries)) &
                       (data['year'].dt.year.between(years[0], years[1]))]\<close>
\<close>

definition filtered_data :: "frame \<Rightarrow> string list \<Rightarrow> int \<times> int \<Rightarrow> frame" where
  "filtered_data data countries years =
     getitem_mask data
       (mask_and (isin (map country (rows data)) countries)
                 (between (map year (rows data)) (fst years) (snd years)))"

text \<open>
  \<^verbatim>\<open>app.py\<close> line 110 and \<^verbatim>\<open>heatmap.py\<close> line 29:
  \<^verbatim>\<open>filtered_data = data[data['year'].dt.year.between(years[0], years[1])]\<close>
\<close>

definition filtered_data_years :: "frame \<Rightarrow> int \<times> int \<Rightarrow> frame" where
  "filtered_data_years data years =
     getitem_mask data (between (map year (rows data)) (fst years) (snd years))"

text \<open>The row predicate that the two masks of lines 49-50 compute together.\<close>

definition selected :: "string list \<Rightarrow> int \<Rightarrow> int \<Rightarrow> row \<Rightarrow> bool" where
  "selected countries lo hi r =
     ((case country r of None \<Rightarrow> False | Some x \<Rightarrow> x \<in> set countries) \<and>
      (case year r of None \<Rightarrow> False | Some y \<Rightarrow> lo \<le> y \<and> y \<le> hi))"

section \<open>Metric summary\<close>

text \<open>
  \<^verbatim>\<open>df[column]\<close> on a numeric column: the cells of the column in row order, or
  \<^verbatim>\<open>KeyError\<close> when the frame has no column of that label.
\<close>

definition getitem_col :: "frame \<Rightarrow> string \<Rightarrow> py_error + cell list" where
  "getitem_col df column =
     (if column \<in> set (columns df) then Inr (map (\<lambda>r. vals r column) (rows df))
      else Inl (KeyError column))"

text \<open>
  \<^verbatim>\<open>Series.mean()\<close> with the default \<^verbatim>\<open>skipna=True\<close>: the float64 sum of the cells that
  are present divided by their number, NaN when there is none. The sum is taken here
  from the first cell to the last, rounding after each addition; on a long series the
  library adds in another order and may round differently.
\<close>

definition series_mean :: "cell list \<Rightarrow> cell" where
  "series_mean s =
     (let xs = List.map_filter (\<lambda>c. c) s
      in if xs = [] then None
         else Some (float64 (foldl (\<lambda>a x. float64 (a + x)) 0 xs / real (length xs))))"

text \<open>
  The float64 operators \<^verbatim>\<open>-\<close>, \<^verbatim>\<open>/\<close> and \<^verbatim>\<open>*\<close> on cells: the exact result is rounded, NaN
  propagates, and \<^verbatim>\<open>NaN != 0\<close> is True.
\<close>

definition nan_sub :: "cell \<Rightarrow> cell \<Rightarrow> cell" where
  "nan_sub a b = (case a of None \<Rightarrow> None | Some x \<Rightarrow> (case b of None \<Rightarrow> None | Some y \<Rightarrow> Some (float64 (x - y))))"

definition nan_div :: "cell \<Rightarrow> cell \<Rightarrow> cell" where
  "nan_div a b = (case a of None \<Rightarrow> None | Some x \<Rightarrow> (case b of None \<Rightarrow> None | Some y \<Rightarrow> Some (float64 (x / y))))"

definition nan_mul :: "cell \<Rightarrow> cell \<Rightarrow> cell" where
  "nan_mul a b = (case a of None \<Rightarrow> None | Some x \<Rightarrow> (case b of None \<Rightarrow> None | Some y \<Rightarrow> Some (float64 (x * y))))"

definition nan_ne0 :: "cell \<Rightarrow> bool" where
  "nan_ne0 a = (case a of None \<Rightarrow> True | Some x \<Rightarrow> x \<noteq> 0)"

text \<open>
  \<^verbatim>\<open>app.py\<close>, lines 17-24:
  \<^verbatim>\<open>
  def calculate_delta(df, column):
      if len(df) < 2:
          return 0, 0
      current_value = df[column].iloc[-1]
      previous_value = df[column].iloc[-2]
      delta = current_value - previous_value
      delta_percent = (delta / previous_value) * 100 if previous_value != 0 else 0
      return delta, delta_percent
  \<close>
  The division is only evaluated when \<^verbatim>\<open>previous_value != 0\<close>.
\<close>

definition calculate_delta :: "frame \<Rightarrow> string \<Rightarrow> py_error + (cell \<times> cell)" where
  "calculate_delta df column =
     (if length (rows df) < 2 then Inr (Some 0, Some 0)
      else (case getitem_col df column of
              Inl e \<Rightarrow> Inl e
            | Inr s \<Rightarrow>
                (let current_value = s ! (length s - 1);
                     previous_value = s ! (length s - 2);
                     delta = nan_sub current_value previous_value;
                     delta_percent =
                       (if nan_ne0 previous_value
                        then nan_mul (nan_div delta previous_value) (Some 100)
                        else Some 0)
                 in Inr (delta, delta_percent))))"

text \<open>\<^verbatim>\<open>app.py\<close>, line 59: \<^verbatim>\<open>value = filtered_data[metric].mean()\<close>.\<close>

definition metric_value :: "frame \<Rightarrow> string \<Rightarrow> py_error + cell" where
  "metric_value df metric =
     (case getitem_col df metric of Inl e \<Rightarrow> Inl e | Inr s \<Rightarrow> Inr (series_mean s))"

section \<open>Grouped means\<close>

text \<open>
  \<^verbatim>\<open>df.groupby(keys)[col].mean().reset_index()\<close> with the defaults \<^verbatim>\<open>sort=True\<close> and
  \<^verbatim>\<open>dropna=True\<close>: a row with a missing key component belongs to no group; there is
  one output row per distinct key, in ascending key order, holding the mean of the
  column over the group's rows (missing cells skipped). \<open>key r\<close> is the key of row
  \<open>r\<close>, \<open>None\<close> when a component is missing.
\<close>

definition groupby_mean ::
    "(row \<Rightarrow> 'k option) \<Rightarrow> string \<Rightarrow> frame \<Rightarrow> ('k::linorder \<times> cell) list" where
  "groupby_mean key col df =
     map (\<lambda>k. (k, series_mean (map (\<lambda>r. vals r col) (filter (\<lambda>r. key r = Some k) (rows df)))))
         (sort (remdups (List.map_filter key (rows df))))"

text \<open>The key of \<^verbatim>\<open>groupby(['country', 'latitude', 'longitude'])\<close>.\<close>

definition bubble_key :: "row \<Rightarrow> (string \<times> real \<times> real) option" where
  "bubble_key r =
     (case country r of None \<Rightarrow> None
      | Some c \<Rightarrow> (case vals r ''latitude'' of None \<Rightarrow> None
         | Some la \<Rightarrow> (case vals r ''longitude'' of None \<Rightarrow> None
            | Some lo \<Rightarrow> Some (c, la, lo))))"

text \<open>
  \<^verbatim>\<open>app.py\<close> line 118 and \<^verbatim>\<open>heatmap.py\<close> line 37:
  \<^verbatim>\<open>heatmap_data = filtered_data.groupby('country')[metric].mean().reset_index()\<close>
\<close>

definition heatmap_data :: "frame \<Rightarrow> string \<Rightarrow> py_error + (string \<times> cell) list" where
  "heatmap_data df metric =
     (if metric \<in> set (columns df) then Inr (groupby_mean country metric df)
      else Inl (KeyError metric))"

text \<open>
  \<^verbatim>\<open>heatmap.py\<close> line 51:
  \<^verbatim>\<open>bubble_data = filtered_data.groupby(['country', 'latitude', 'longitude'])[metric].mean().reset_index()\<close>
\<close>

definition bubble_data ::
    "frame \<Rightarrow> string \<Rightarrow> py_error + ((string \<times> real \<times> real) \<times> cell) list" where
  "bubble_data df metric =
     (if ''latitude'' \<notin> set (columns df) then Inl (KeyError ''latitude'')
      else if ''longitude'' \<notin> set (columns df) then Inl (KeyError ''longitude'')
      else if metric \<notin> set (columns df) then Inl (KeyError metric)
      else Inr (groupby_mean bubble_key metric df))"

text \<open>
  The cells of a row under the three key columns of line 51, missing or not: the
  group-key value of the row when a missing cell is taken as a value of its own.
\<close>

definition group_key_cells :: "row \<Rightarrow> string option \<times> cell \<times> cell" where
  "group_key_cells r = (country r, vals r ''latitude'', vals r ''longitude'')"

section \<open>Composite score and Top-N\<close>

text \<open>\<^verbatim>\<open>app.py\<close>, lines 132-137.\<close>

definition indicators :: "string list" where
  "indicators =
     [''pri_comp_rate_pct'', ''school_enrol_primary_pct'',
      ''school_enrol_secondary_pct'', ''school_enrol_tertiary_pct'']"

text \<open>
  \<^verbatim>\<open>filtered_data[indicators].mean(axis=1)\<close>: for each row the mean of its indicator
  cells that are present.
\<close>

definition mean_axis1 :: "frame \<Rightarrow> string list \<Rightarrow> cell list" where
  "mean_axis1 df cols = map (\<lambda>r. series_mean (map (vals r) cols)) (rows df)"

text \<open>
  \<^verbatim>\<open>df[c] = values\<close>: the column is overwritten in place when the label exists and
  appended otherwise.
\<close>

definition setitem_col :: "frame \<Rightarrow> string \<Rightarrow> cell list \<Rightarrow> frame" where
  "setitem_col df c vs =
     \<lparr>columns = (if c \<in> set (columns df) then columns df else columns df @ [c]),
      rows = map (\<lambda>(r, v). r\<lparr>vals := (vals r)(c := v)\<rparr>) (zip (rows df) vs)\<rparr>"

text \<open>
  \<^verbatim>\<open>sort_values(by=..., ascending=False)\<close> is called with the default
  \<^verbatim>\<open>kind='quicksort'\<close> and \<^verbatim>\<open>na_position='last'\<close>. pandas computes the row order with
  \<^verbatim>\<open>nargsort\<close>: the positions of the missing keys are set aside, the present keys and
  their positions are reversed, numpy's \<^verbatim>\<open>argsort\<close> of the requested kind sorts the
  reversed keys ascending, the resulting order is reversed again and the positions of
  the missing keys are appended. numpy's sort is the parameter \<open>argsort\<close>: for a list of
  keys it returns the positions of the keys in ascending key order. numpy documents
  \<^verbatim>\<open>quicksort\<close> as not stable; its scalar routine is \<open>npy_aquicksort\<close> below.
\<close>

definition nargsort_desc :: "(real list \<Rightarrow> nat list) \<Rightarrow> cell list \<Rightarrow> nat list" where
  "nargsort_desc argsort items =
     (let idx = [0..<length items];
          non_nan_idx = filter (\<lambda>i. items ! i \<noteq> None) idx;
          nan_idx = filter (\<lambda>i. items ! i = None) idx;
          non_nans = map (\<lambda>i. the (items ! i)) non_nan_idx;
          indexer = map (\<lambda>j. rev non_nan_idx ! j) (argsort (rev non_nans))
      in rev indexer @ nan_idx)"

definition sort_values_desc ::
    "(real list \<Rightarrow> nat list) \<Rightarrow> ('k \<times> cell) list \<Rightarrow> ('k \<times> cell) list" where
  "sort_values_desc argsort df = map (\<lambda>i. df ! i) (nargsort_desc argsort (map snd df))"

text \<open>\<^verbatim>\<open>df.head(n)\<close>: the first \<open>n\<close> rows, all of them when there are fewer.\<close>

definition head :: "nat \<Rightarrow> 'a list \<Rightarrow> 'a list" where
  "head n df = take n df"

text \<open>
  \<^verbatim>\<open>app.py\<close>, lines 141-149, on a frame that has the four indicator columns:
  the frame with the column \<^verbatim>\<open>composite_metric\<close> set, and the per-country means of that
  column sorted descending.
\<close>

definition with_composite_metric :: "frame \<Rightarrow> frame" where
  "with_composite_metric df = setitem_col df ''composite_metric'' (mean_axis1 df indicators)"

definition country_composite_scores ::
    "(real list \<Rightarrow> nat list) \<Rightarrow> frame \<Rightarrow> (string \<times> cell) list" where
  "country_composite_scores argsort df =
     sort_values_desc argsort (groupby_mean country ''composite_metric'' (with_composite_metric df))"

text \<open>
  The spec's TopN: the sort of line 148 followed by the \<^verbatim>\<open>head\<close> of line 158, with the
  row count as a parameter.
\<close>

definition top_n_countries ::
    "(real list \<Rightarrow> nat list) \<Rightarrow> nat \<Rightarrow> ('k \<times> cell) list \<Rightarrow> ('k \<times> cell) list" where
  "top_n_countries argsort n grouped = head n (sort_values_desc argsort grouped)"

text \<open>\<^verbatim>\<open>app.py\<close>, line 158: \<^verbatim>\<open>top_10_countries = country_composite_scores.head(10)\<close>.\<close>

definition top_10_countries :: "(string \<times> cell) list \<Rightarrow> (string \<times> cell) list" where
  "top_10_countries scores = head 10 scores"

section \<open>The script \<^verbatim>\<open>app.py\<close>\<close>

text \<open>
  What the widgets return in one run: the country multiselect, the first year slider,
  the metrics multiselect, the second year slider (line 100 rebinds \<^verbatim>\<open>years\<close>) and
  the metric selectbox.
\<close>

record selection =
  countries :: "string list"
  years :: "int \<times> int"
  metrics :: "string list"
  years_map :: "int \<times> int"
  metric :: string

text \<open>
  What the script hands to the rendering calls, as data: \<^verbatim>\<open>st.metric\<close> (metric name,
  value, delta, delta percent), \<^verbatim>\<open>alt.Chart(filtered_data)\<close> of lines 67-91,
  \<^verbatim>\<open>st.dataframe\<close>, \<^verbatim>\<open>px.choropleth\<close>, \<^verbatim>\<open>px.scatter_geo\<close>, \<^verbatim>\<open>st.error\<close> and the Top-10 bar
  chart. Titles, colours and number formats are not modelled.
\<close>

datatype rendered =
  Metric string cell cell cell
  | AltairChart frame
  | DataFrameView frame
  | Choropleth "(string \<times> cell) list"
  | ScatterGeo "((string \<times> real \<times> real) \<times> cell) list"
  | ErrorMessage string
  | TopCountriesChart "(string \<times> cell) list"

text \<open>
  The state of a run. DataFrame objects that a variable of the script is bound to live
  in \<open>heap\<close>, at an address; \<open>data_var\<close> is the address of the loaded table and
  \<open>filtered_data_var\<close> the address that \<^verbatim>\<open>filtered_data\<close> is bound to. A variable that
  is not yet bound is \<open>None\<close>. The frames of \<^verbatim>\<open>heatmap_data\<close>,
  \<^verbatim>\<open>country_composite_scores\<close> and \<^verbatim>\<open>top_10_countries\<close> are fresh objects that no
  statement writes to, and are kept as values.
\<close>

record script_state =
  heap :: "nat \<Rightarrow> frame"
  fresh :: nat
  data_var :: nat
  filtered_data_var :: "nat option"
  heatmap_data_var :: "(string \<times> cell) list option"
  country_composite_scores_var :: "(string \<times> cell) list option"
  top_10_countries_var :: "(string \<times> cell) list option"
  outs :: "rendered list"

text \<open>
  \<^verbatim>\<open>data = load_data()\<close>: the table is the one object of the heap, nothing else is
  bound. Reading and parsing the file is outside the model; the table is its result.
\<close>

definition load_data :: "frame \<Rightarrow> script_state" where
  "load_data table =
     \<lparr>heap = (\<lambda>a. if a = 0 then table else \<lparr>columns = [], rows = []\<rparr>), fresh = 1, data_var = 0,
      filtered_data_var = None, heatmap_data_var = None,
      country_composite_scores_var = None, top_10_countries_var = None, outs = []\<rparr>"

text \<open>
  Boolean indexing \<^verbatim>\<open>data[mask]\<close> returns a new DataFrame object: the result is stored
  at a fresh address, which \<^verbatim>\<open>filtered_data\<close> is then bound to.
\<close>

definition bind_filtered_data :: "frame \<Rightarrow> script_state \<Rightarrow> script_state" where
  "bind_filtered_data df st =
     st\<lparr>heap := (heap st)(fresh st := df), fresh := fresh st + 1,
        filtered_data_var := Some (fresh st)\<rparr>"

definition emit :: "rendered \<Rightarrow> script_state \<Rightarrow> script_state" where
  "emit x st = st\<lparr>outs := outs st @ [x]\<rparr>"

text \<open>
  A statement either completes or raises; a raised exception ends the run, and the
  state is the one at the raise.
\<close>

type_synonym stmt = "script_state \<Rightarrow> py_error option \<times> script_state"

fun run_stmts :: "stmt list \<Rightarrow> stmt" where
  "run_stmts [] st = (None, st)"
| "run_stmts (f # fs) st =
     (case f st of (Some e, st') \<Rightarrow> (Some e, st') | (None, st') \<Rightarrow> run_stmts fs st')"

text \<open>Reading the variable \<^verbatim>\<open>filtered_data\<close>.\<close>

definition with_filtered_data :: "(nat \<Rightarrow> frame \<Rightarrow> stmt) \<Rightarrow> stmt" where
  "with_filtered_data f st =
     (case filtered_data_var st of
        None \<Rightarrow> (Some (NameError ''filtered_data''), st)
      | Some a \<Rightarrow> f a (heap st a) st)"

text \<open>Lines 49-50.\<close>

definition stmt_filter :: "selection \<Rightarrow> stmt" where
  "stmt_filter sel st =
     (None, bind_filtered_data
              (filtered_data (heap st (data_var st)) (countries sel) (years sel)) st)"

text \<open>
  Line 57, \<^verbatim>\<open>st.columns(len(metrics))\<close>: Streamlit rejects a column count that is not
  positive.
\<close>

definition stmt_columns :: "selection \<Rightarrow> stmt" where
  "stmt_columns sel st =
     (if length (metrics sel) = 0 then (Some StreamlitAPIException, st) else (None, st))"

text \<open>
  \<^verbatim>\<open>display_metric\<close>, lines 26-30: \<^verbatim>\<open>calculate_delta\<close>, then the metric card with the
  value and the two deltas. The title is kept as the metric's name.
\<close>

definition display_metric :: "string \<Rightarrow> cell \<Rightarrow> frame \<Rightarrow> string \<Rightarrow> py_error + rendered" where
  "display_metric title v df column =
     (case calculate_delta df column of
        Inl e \<Rightarrow> Inl e
      | Inr (delta, delta_percent) \<Rightarrow> Inr (Metric title v delta delta_percent))"

text \<open>Lines 59-60 for one metric: the mean of the column, then \<^verbatim>\<open>display_metric\<close>.\<close>

definition stmt_metric :: "string \<Rightarrow> stmt" where
  "stmt_metric m =
     with_filtered_data (\<lambda>a df st.
       (case metric_value df m of
          Inl e \<Rightarrow> (Some e, st)
        | Inr v \<Rightarrow>
            (case display_metric m v df m of
               Inl e \<Rightarrow> (Some e, st)
             | Inr x \<Rightarrow> (None, emit x st))))"

text \<open>Lines 67-95: three charts over \<^verbatim>\<open>filtered_data\<close> and the table view.\<close>

definition stmt_charts :: stmt where
  "stmt_charts =
     with_filtered_data (\<lambda>a df st.
       (None, emit (DataFrameView df) (emit (AltairChart df) (emit (AltairChart df)
                (emit (AltairChart df) st)))))"

text \<open>Line 110.\<close>

definition stmt_filter_years :: "selection \<Rightarrow> stmt" where
  "stmt_filter_years sel st =
     (None, bind_filtered_data (filtered_data_years (heap st (data_var st)) (years_map sel)) st)"

text \<open>Lines 118-128.\<close>

definition stmt_heatmap :: "selection \<Rightarrow> stmt" where
  "stmt_heatmap sel =
     with_filtered_data (\<lambda>a df st.
       (case heatmap_data df (metric sel) of
          Inl e \<Rightarrow> (Some e, st)
        | Inr h \<Rightarrow> (None, emit (Choropleth h) (st\<lparr>heatmap_data_var := Some h\<rparr>))))"

text \<open>
  Lines 140-151. In the first branch line 141 writes the column \<^verbatim>\<open>composite_metric\<close>
  into the object that \<^verbatim>\<open>filtered_data\<close> is bound to, and lines 144-149 bind
  \<^verbatim>\<open>country_composite_scores\<close>; the second branch calls \<^verbatim>\<open>st.error\<close> and binds nothing.
\<close>

definition stmt_composite :: "(real list \<Rightarrow> nat list) \<Rightarrow> stmt" where
  "stmt_composite argsort =
     with_filtered_data (\<lambda>a df st.
       (if list_all (\<lambda>indicator. indicator \<in> set (columns df)) indicators
        then (None, st\<lparr>heap := (heap st)(a := with_composite_metric df),
                        country_composite_scores_var := Some (country_composite_scores argsort df)\<rparr>)
        else (None, emit (ErrorMessage ''Required indicators for composite metric are missing in the dataset.'') st)))"

text \<open>Lines 158-172: reading \<^verbatim>\<open>country_composite_scores\<close> raises when it is not bound.\<close>

definition stmt_top_10 :: stmt where
  "stmt_top_10 st =
     (case country_composite_scores_var st of
        None \<Rightarrow> (Some (NameError ''country_composite_scores''), st)
      | Some scores \<Rightarrow>
          (None, emit (TopCountriesChart (top_10_countries scores))
                   (st\<lparr>top_10_countries_var := Some (top_10_countries scores)\<rparr>)))"

text \<open>
  The statements of the script in order: lines 49-95, which work on the view of the
  selected countries, and lines 110-172, which filter the table again by year only.
\<close>

definition first_pass :: "selection \<Rightarrow> stmt list" where
  "first_pass sel =
     [stmt_filter sel, stmt_columns sel] @ map stmt_metric (metrics sel) @ [stmt_charts]"

definition second_pass :: "(real list \<Rightarrow> nat list) \<Rightarrow> selection \<Rightarrow> stmt list" where
  "second_pass argsort sel =
     [stmt_filter_years sel, stmt_heatmap sel, stmt_composite argsort, stmt_top_10]"

text \<open>One run of the script, from line 33 to the end.\<close>

definition app ::
    "(real list \<Rightarrow> nat list) \<Rightarrow> frame \<Rightarrow> selection \<Rightarrow> py_error option \<times> script_state" where
  "app argsort table sel =
     run_stmts (first_pass sel @ second_pass argsort sel) (load_data table)"

section \<open>The script \<^verbatim>\<open>heatmap.py\<close>\<close>

text \<open>
  The page has a year slider and a metric selectbox and no country widget: lines 29,
  37 and 51, with the choropleth and the bubble map as outputs.
\<close>

definition heatmap_page ::
    "frame \<Rightarrow> int \<times> int \<Rightarrow> string \<Rightarrow> py_error option \<times> rendered list" where
  "heatmap_page table yrs m =
     (let df = filtered_data_years table yrs
      in case heatmap_data df m of
           Inl e \<Rightarrow> (Some e, [])
         | Inr h \<Rightarrow> (case bubble_data df m of
                       Inl e \<Rightarrow> (Some e, [Choropleth h])
                     | Inr b \<Rightarrow> (None, [Choropleth h, ScatterGeo b])))"

section \<open>Observing a run\<close>

text \<open>
  The outputs of the second pass: the choropleth of line 119, the message of line 151
  and the Top-10 chart of line 161.
\<close>

fun map_rendered :: "rendered \<Rightarrow> bool" where
  "map_rendered (Choropleth h) = True"
| "map_rendered (ErrorMessage e) = True"
| "map_rendered (TopCountriesChart t) = True"
| "map_rendered x = False"

text \<open>
  What the second pass produces: the values of \<^verbatim>\<open>heatmap_data\<close>,
  \<^verbatim>\<open>country_composite_scores\<close> and \<^verbatim>\<open>top_10_countries\<close> (unbound when the run did not
  get there) and the outputs of the second pass, in order.
\<close>

definition map_outputs ::
    "script_state \<Rightarrow>
       (string \<times> cell) list option \<times> (string \<times> cell) list option \<times>
       (string \<times> cell) list option \<times> rendered list" where
  "map_outputs st =
     (heatmap_data_var st, country_composite_scores_var st, top_10_countries_var st,
      filter map_rendered (outs st))"

text \<open>
  The loaded table is still the object that \<^verbatim>\<open>data\<close> is bound to, and
  \<^verbatim>\<open>filtered_data\<close> is bound to another object.
\<close>

definition table_kept :: "frame \<Rightarrow> script_state \<Rightarrow> bool" where
  "table_kept table st \<longleftrightarrow>
     data_var st = 0 \<and> heap st 0 = table \<and> 0 < fresh st \<and>
     (case filtered_data_var st of None \<Rightarrow> True | Some a \<Rightarrow> 0 < a)"

text \<open>
  Two states of two runs over the same table agree on the table and on what the
  second pass has produced so far, and their filtered views have the same columns
  (\<open>same_table\<close>) or are the same frame (\<open>same_view\<close>).
\<close>

definition same_table :: "script_state \<Rightarrow> script_state \<Rightarrow> bool" where
  "same_table s t \<longleftrightarrow>
     data_var s = data_var t \<and> heap s (data_var s) = heap t (data_var t) \<and>
     map_outputs s = map_outputs t \<and>
     (case filtered_data_var s of
        None \<Rightarrow> filtered_data_var t = None
      | Some a \<Rightarrow> (case filtered_data_var t of
           None \<Rightarrow> False
         | Some b \<Rightarrow> a \<noteq> data_var s \<and> b \<noteq> data_var t \<and>
             columns (heap s a) = columns (heap t b)))"

definition same_view :: "script_state \<Rightarrow> script_state \<Rightarrow> bool" where
  "same_view s t \<longleftrightarrow>
     same_table s t \<and>
     (case filtered_data_var s of
        None \<Rightarrow> True
      | Some a \<Rightarrow> (case filtered_data_var t of
           None \<Rightarrow> True
         | Some b \<Rightarrow> heap s a = heap t b))"

text \<open>The filtered view is bound and has the given columns.\<close>

definition view_columns :: "string list \<Rightarrow> script_state \<Rightarrow> bool" where
  "view_columns cols st \<longleftrightarrow>
     (case filtered_data_var st of None \<Rightarrow> False | Some a \<Rightarrow> columns (heap st a) = cols)"

definition fresh_above :: "script_state \<Rightarrow> bool" where
  "fresh_above st \<longleftrightarrow> data_var st < fresh st"

definition rel_table :: "script_state \<Rightarrow> script_state \<Rightarrow> bool" where
  "rel_table s t \<longleftrightarrow> same_table s t \<and> fresh_above s \<and> fresh_above t"

definition rel_view :: "script_state \<Rightarrow> script_state \<Rightarrow> bool" where
  "rel_view s t \<longleftrightarrow> same_view s t \<and> fresh_above s \<and> fresh_above t"

section \<open>numpy's quicksort\<close>

text \<open>
  \<^verbatim>\<open>argsort\<close> with \<^verbatim>\<open>kind='quicksort'\<close> on float64 keys, as numpy's scalar routine
  \<^verbatim>\<open>aquicksort_\<close> (npysort/quicksort.cpp) computes it: an introsort on the array
  \<^verbatim>\<open>tosort\<close> of positions, with a median-of-three partition, insertion sort on ranges of
  at most \<^verbatim>\<open>SMALL_QUICKSORT + 1\<close> positions, an explicit stack of the larger partitions
  and a heapsort once the depth limit is used up. \<open>v\<close> is the array of keys, \<open>ts\<close> is
  \<^verbatim>\<open>tosort\<close>, and the pointers \<^verbatim>\<open>pl\<close>, \<^verbatim>\<open>pr\<close>, \<^verbatim>\<open>pm\<close>, \<^verbatim>\<open>pi\<close>, \<^verbatim>\<open>pj\<close> are positions in \<open>ts\<close>
  (\<open>p_i\<close> and \<open>p_j\<close> for the last two).
  The keys that reach the routine hold no NaN (pandas sets them aside before the call),
  so the comparison is \<open><\<close> on the keys. On processors for which numpy dispatches a
  vectorised argsort that routine runs instead; it is not modelled.
\<close>

text \<open>\<^verbatim>\<open>INTP_SWAP(*a, *b)\<close>.\<close>

definition swap :: "nat list \<Rightarrow> nat \<Rightarrow> nat \<Rightarrow> nat list" where
  "swap ts i j = ts[i := ts ! j, j := ts ! i]"

text \<open>
  The two scans of the partition, \<^verbatim>\<open>do { ++pi; } while (less(v[*pi], vp));\<close> and
  \<^verbatim>\<open>do { --pj; } while (less(vp, v[*pj]));\<close>, from the position after the step. In the
  routine a scan stops at the median-of-three sentinels; the bounds \<open>p_i < length ts\<close>
  and \<open>0 < p_j\<close> stand for the ends of the array.
\<close>

function scan_up :: "real list \<Rightarrow> nat list \<Rightarrow> real \<Rightarrow> nat \<Rightarrow> nat" where
  "scan_up v ts vp p_i =
     (if p_i < length ts \<and> v ! (ts ! p_i) < vp then scan_up v ts vp (p_i + 1) else p_i)"
  by pat_completeness auto
termination
  by (relation "measure (\<lambda>(v, ts, vp, p_i). length ts - p_i)") auto

function scan_down :: "real list \<Rightarrow> nat list \<Rightarrow> real \<Rightarrow> nat \<Rightarrow> nat" where
  "scan_down v ts vp p_j =
     (if 0 < p_j \<and> vp < v ! (ts ! p_j) then scan_down v ts vp (p_j - 1) else p_j)"
  by pat_completeness auto
termination
  by (relation "measure (\<lambda>(v, ts, vp, p_j). p_j)") auto

declare scan_up.simps [simp del] scan_down.simps [simp del]

lemma scan_up_ge: "p_i \<le> scan_up v ts vp p_i"
proof (induction v ts vp p_i rule: scan_up.induct)
  case (1 v ts vp p_i)
  then show ?case
    by (subst scan_up.simps) (auto simp: Suc_leD)
qed

lemma scan_down_le: "scan_down v ts vp p_j \<le> p_j"
proof (induction v ts vp p_j rule: scan_down.induct)
  case (1 v ts vp p_j)
  then show ?case
    by (subst scan_down.simps) (auto intro: le_trans)
qed

lemma scan_up_sentinel:
  "p_i \<le> s \<Longrightarrow> s < length ts \<Longrightarrow> \<not> v ! (ts ! s) < vp \<Longrightarrow> scan_up v ts vp p_i \<le> s"
proof (induction v ts vp p_i rule: scan_up.induct)
  case (1 v ts vp p_i)
  show ?case
  proof (cases "p_i < length ts \<and> v ! (ts ! p_i) < vp")
    case True
    with "1.prems" have "p_i \<noteq> s" by auto
    with "1.prems" have "p_i + 1 \<le> s" by simp
    with True "1.IH" "1.prems" show ?thesis
      by (subst scan_up.simps) simp
  next
    case False
    with "1.prems" show ?thesis
      by (subst scan_up.simps) simp
  qed
qed

text \<open>
  The partition loop: scan up, scan down, stop when the pointers have met, swap
  otherwise.
\<close>

function partition_loop ::
    "real list \<Rightarrow> real \<Rightarrow> nat list \<Rightarrow> nat \<Rightarrow> nat \<Rightarrow> nat list \<times> nat" where
  "partition_loop v vp ts p_i p_j =
     (let p_i' = scan_up v ts vp (p_i + 1); p_j' = scan_down v ts vp (p_j - 1)
      in if p_j' \<le> p_i' then (ts, p_i') else partition_loop v vp (swap ts p_i' p_j') p_i' p_j')"
  by pat_completeness auto
termination
proof (relation "measure (\<lambda>(v, vp, ts, p_i, p_j). p_j - p_i)")
  show "wf (measure (\<lambda>(v, vp, ts, p_i, p_j). p_j - p_i))" by simp
next
  fix v :: "real list" and vp :: real and ts :: "nat list" and p_i p_j x xa :: nat
  assume "x = scan_up v ts vp (p_i + 1)" and "xa = scan_down v ts vp (p_j - 1)" and "\<not> xa \<le> x"
  moreover have "p_i + 1 \<le> scan_up v ts vp (p_i + 1)" by (rule scan_up_ge)
  moreover have "scan_down v ts vp (p_j - 1) \<le> p_j - 1" by (rule scan_down_le)
  ultimately show "((v, vp, swap ts x xa, x, xa), (v, vp, ts, p_i, p_j)) \<in>
      measure (\<lambda>(v, vp, ts, p_i, p_j). p_j - p_i)"
    by simp
qed

declare partition_loop.simps [simp del]

lemma partition_loop_bounds:
  assumes "partition_loop v vp ts p_i p_j = (ts', r)"
    and "p_j \<le> s" and "s < length ts" and "\<not> v ! (ts ! s) < vp" and "p_i < s"
  shows "length ts' = length ts \<and> p_i < r \<and> r \<le> s"
  using assms
proof (induction v vp ts p_i p_j arbitrary: ts' r rule: partition_loop.induct)
  case (1 v vp ts p_i p_j)
  let ?i = "scan_up v ts vp (p_i + 1)"
  let ?j = "scan_down v ts vp (p_j - 1)"
  have i_lo: "p_i + 1 \<le> ?i" by (rule scan_up_ge)
  have i_hi: "?i \<le> s"
    using "1.prems" by (intro scan_up_sentinel) auto
  have j_hi: "?j \<le> p_j - 1" by (rule scan_down_le)
  show ?case
  proof (cases "?j \<le> ?i")
    case True
    with "1.prems"(1) have "ts' = ts" and "r = ?i"
      by (auto simp: partition_loop.simps [of v vp ts p_i p_j] Let_def)
    with i_lo i_hi show ?thesis by simp
  next
    case False
    with "1.prems"(1) have rec: "partition_loop v vp (swap ts ?i ?j) ?i ?j = (ts', r)"
      by (simp add: partition_loop.simps [of v vp ts p_i p_j] Let_def)
    from False j_hi "1.prems"(2) have js: "?j < s" by simp
    with False have i_s: "?i < s" by simp
    have len: "length (swap ts ?i ?j) = length ts"
      by (simp add: swap_def)
    have sent: "swap ts ?i ?j ! s = ts ! s"
      using js i_s by (simp add: swap_def)
    have "length ts' = length (swap ts ?i ?j) \<and> ?i < r \<and> r \<le> s"
      using "1.IH" [OF refl refl False rec] js i_s "1.prems"(3,4) len sent by simp
    with len i_lo show ?thesis by simp
  qed
qed

text \<open>
  One partition step of the \<^verbatim>\<open>while ((pr - pl) > SMALL_QUICKSORT)\<close> loop: the median of
  three is moved to \<^verbatim>\<open>pr - 1\<close> as the pivot, the range is partitioned, and the pivot is
  swapped to its final position, which is returned with the array.
\<close>

definition quicksort_partition :: "real list \<Rightarrow> nat list \<Rightarrow> nat \<Rightarrow> nat \<Rightarrow> nat list \<times> nat" where
  "quicksort_partition v ts pl pr =
     (let pm = pl + (pr - pl) div 2;
          ts1 = (if v ! (ts ! pm) < v ! (ts ! pl) then swap ts pm pl else ts);
          ts2 = (if v ! (ts1 ! pr) < v ! (ts1 ! pm) then swap ts1 pr pm else ts1);
          ts3 = (if v ! (ts2 ! pm) < v ! (ts2 ! pl) then swap ts2 pm pl else ts2);
          vp = v ! (ts3 ! pm);
          ts4 = swap ts3 pm (pr - 1)
      in case partition_loop v vp ts4 pl (pr - 1) of
           (ts5, p_i) \<Rightarrow> (swap ts5 p_i (pr - 1), p_i))"

lemma length_swap [simp]: "length (swap ts i j) = length ts"
  by (simp add: swap_def)

lemma swap_nth_second: "j < length ts \<Longrightarrow> swap ts i j ! j = ts ! i"
  by (simp add: swap_def)

lemma quicksort_partition_bounds:
  assumes "quicksort_partition v ts pl pr = (ts', p)" and "pl + 1 < pr" and "pr < length ts"
  shows "length ts' = length ts \<and> pl < p \<and> p < pr"
proof -
  define pm where "pm = pl + (pr - pl) div 2"
  define ts1 where "ts1 = (if v ! (ts ! pm) < v ! (ts ! pl) then swap ts pm pl else ts)"
  define ts2 where "ts2 = (if v ! (ts1 ! pr) < v ! (ts1 ! pm) then swap ts1 pr pm else ts1)"
  define ts3 where "ts3 = (if v ! (ts2 ! pm) < v ! (ts2 ! pl) then swap ts2 pm pl else ts2)"
  define vp where "vp = v ! (ts3 ! pm)"
  define ts4 where "ts4 = swap ts3 pm (pr - 1)"
  obtain ts5 r where loop: "partition_loop v vp ts4 pl (pr - 1) = (ts5, r)"
    by (cases "partition_loop v vp ts4 pl (pr - 1)")
  have len3: "length ts3 = length ts"
    by (simp add: ts3_def ts2_def ts1_def)
  then have len4: "length ts4 = length ts"
    by (simp add: ts4_def)
  have "ts4 ! (pr - 1) = ts3 ! pm"
    unfolding ts4_def using assms(3) len3 by (intro swap_nth_second) simp
  then have sent: "\<not> v ! (ts4 ! (pr - 1)) < vp"
    by (simp add: vp_def)
  have b: "length ts5 = length ts4 \<and> pl < r \<and> r \<le> pr - 1"
    using loop
  proof (rule partition_loop_bounds)
    show "pr - 1 \<le> pr - 1" by simp
    show "pr - 1 < length ts4" using assms(3) len4 by simp
    show "\<not> v ! (ts4 ! (pr - 1)) < vp" by (rule sent)
    show "pl < pr - 1" using assms(2) by simp
  qed
  from assms(1) loop have "ts' = swap ts5 r (pr - 1)" and "p = r"
    unfolding quicksort_partition_def Let_def
      pm_def [symmetric] ts1_def [symmetric] ts2_def [symmetric] ts3_def [symmetric]
      vp_def [symmetric] ts4_def [symmetric]
    by auto
  with b len4 assms(2) show ?thesis by auto
qed

text \<open>
  The insertion sort of the range \<^verbatim>\<open>pl..pr\<close>: for each \<^verbatim>\<open>pi\<close> from \<^verbatim>\<open>pl + 1\<close> to \<^verbatim>\<open>pr\<close>,
  the positions before it with a greater key are shifted up
  (\<^verbatim>\<open>while (pj > pl && less(vp, v[*pk])) { *pj-- = *pk--; }\<close>) and \<^verbatim>\<open>*pi\<close> is put in
  the gap. Equal keys are not shifted.
\<close>

function shift_down :: "real list \<Rightarrow> real \<Rightarrow> nat \<Rightarrow> nat list \<Rightarrow> nat \<Rightarrow> nat list \<times> nat" where
  "shift_down v vp pl ts p_j =
     (if pl < p_j \<and> vp < v ! (ts ! (p_j - 1))
      then shift_down v vp pl (ts[p_j := ts ! (p_j - 1)]) (p_j - 1)
      else (ts, p_j))"
  by pat_completeness auto
termination
  by (relation "measure (\<lambda>(v, vp, pl, ts, p_j). p_j)") auto

declare shift_down.simps [simp del]

definition insert_one :: "real list \<Rightarrow> nat \<Rightarrow> nat list \<Rightarrow> nat \<Rightarrow> nat list" where
  "insert_one v pl ts p_i =
     (let vi = ts ! p_i
      in case shift_down v (v ! vi) pl ts p_i of (ts', p_j) \<Rightarrow> ts'[p_j := vi])"

definition insertion_sort :: "real list \<Rightarrow> nat list \<Rightarrow> nat \<Rightarrow> nat \<Rightarrow> nat list" where
  "insertion_sort v ts pl pr = foldl (insert_one v pl) ts [pl + 1..<pr + 1]"

text \<open>
  \<^verbatim>\<open>aheapsort_\<close> (npysort/heapsort.cpp) on the \<open>n\<close> positions from \<open>off\<close>, with the
  routine's one-based indexing \<^verbatim>\<open>a = tosort - 1\<close>: \<open>sift\<close> is the inner loop
  \<^verbatim>\<open>for (i = l, j = l << 1; j <= n;)\<close>, \<open>heapify\<close> the loop that builds the heap and
  \<open>sort_down\<close> the loop that moves the maximum to the end.
\<close>

function sift :: "real list \<Rightarrow> nat \<Rightarrow> nat \<Rightarrow> nat \<Rightarrow> nat list \<Rightarrow> nat \<Rightarrow> nat \<Rightarrow> nat list \<times> nat" where
  "sift v off n tmp ts i j =
     (if 0 < j \<and> j \<le> n then
        (let j1 = (if j < n \<and> v ! (ts ! (off + j - 1)) < v ! (ts ! (off + j)) then j + 1 else j)
         in if v ! tmp < v ! (ts ! (off + j1 - 1))
            then sift v off n tmp (ts[off + i - 1 := ts ! (off + j1 - 1)]) j1 (j1 + j1)
            else (ts, i))
      else (ts, i))"
  by pat_completeness auto
termination
  by (relation "measure (\<lambda>(v, off, n, tmp, ts, i, j). Suc n - j)") auto

declare sift.simps [simp del]

definition sift_place :: "real list \<Rightarrow> nat \<Rightarrow> nat \<Rightarrow> nat list \<Rightarrow> nat \<Rightarrow> nat \<Rightarrow> nat \<Rightarrow> nat list" where
  "sift_place v off n ts tmp i j =
     (case sift v off n tmp ts i j of (ts', i') \<Rightarrow> ts'[off + i' - 1 := tmp])"

fun heapify :: "real list \<Rightarrow> nat \<Rightarrow> nat \<Rightarrow> nat list \<Rightarrow> nat \<Rightarrow> nat list" where
  "heapify v off n ts 0 = ts"
| "heapify v off n ts (Suc l) =
     heapify v off n (sift_place v off n ts (ts ! (off + l)) (Suc l) (2 * Suc l)) l"

fun sort_down :: "real list \<Rightarrow> nat \<Rightarrow> nat list \<Rightarrow> nat \<Rightarrow> nat list" where
  "sort_down v off ts 0 = ts"
| "sort_down v off ts (Suc n) =
     (if 0 < n
      then sort_down v off (sift_place v off n (ts[off + n := ts ! off]) (ts ! (off + n)) 1 2) n
      else ts)"

definition aheapsort :: "real list \<Rightarrow> nat list \<Rightarrow> nat \<Rightarrow> nat \<Rightarrow> nat list" where
  "aheapsort v ts off n = sort_down v off (heapify v off n ts (n div 2)) n"

text \<open>
  The outer loop of \<^verbatim>\<open>aquicksort_\<close>. \<open>stack\<close> holds the ranges pushed on \<^verbatim>\<open>sptr\<close> with
  their depths on \<^verbatim>\<open>psdepth\<close>; \<open>check\<close> says that control is at the head of
  \<^verbatim>\<open>while (1)\<close>, where the depth limit is tested, and not inside the partition loop.
  The condition \<open>pr < length ts\<close> holds in every call that \<open>npy_aquicksort\<close> makes.
\<close>

definition SMALL_QUICKSORT :: nat where
  "SMALL_QUICKSORT = 16"

lemma quicksort_partition_split:
  assumes "(ts', p) = quicksort_partition v ts pl pr"
    and "SMALL_QUICKSORT < pr - pl" and "pr < length ts"
  shows "pl < p \<and> p < pr"
  using quicksort_partition_bounds [of v ts pl pr ts' p] assms
  by (simp add: SMALL_QUICKSORT_def)

fun stack_weight :: "(nat \<times> nat \<times> int) list \<Rightarrow> nat" where
  "stack_weight [] = 0"
| "stack_weight ((pl, pr, d) # stack) = (pr - pl) + stack_weight stack"

function aquicksort_loop ::
    "real list \<Rightarrow> nat list \<Rightarrow> nat \<Rightarrow> nat \<Rightarrow> int \<Rightarrow> (nat \<times> nat \<times> int) list \<Rightarrow> bool \<Rightarrow> nat list" where
  "aquicksort_loop v ts pl pr cdepth stack check =
     (if \<not> (check \<and> cdepth < 0) \<and> SMALL_QUICKSORT < pr - pl \<and> pr < length ts then
        (case quicksort_partition v ts pl pr of (ts', p_i) \<Rightarrow>
           if p_i - pl < pr - p_i
           then aquicksort_loop v ts' pl (p_i - 1) (cdepth - 1)
                  ((p_i + 1, pr, cdepth - 1) # stack) False
           else aquicksort_loop v ts' (p_i + 1) pr (cdepth - 1)
                  ((pl, p_i - 1, cdepth - 1) # stack) False)
      else
        (let ts' = (if check \<and> cdepth < 0 then aheapsort v ts pl (pr - pl + 1)
                    else insertion_sort v ts pl pr)
         in case stack of
              [] \<Rightarrow> ts'
            | (pl', pr', cdepth') # stack' \<Rightarrow> aquicksort_loop v ts' pl' pr' cdepth' stack' True))"
  by pat_completeness auto
termination
proof (relation "inv_image (less_than <*lex*> less_than)
    (\<lambda>(v, ts, pl, pr, cdepth, stack, check). ((pr - pl) + stack_weight stack, length stack))",
    goal_cases)
  case 1
  show ?case
    by (intro wf_inv_image wf_lex_prod wf_less_than)
next
  case 2
  then show ?case
    by (auto dest!: quicksort_partition_split)
next
  case 3
  then show ?case
    by (auto dest!: quicksort_partition_split)
next
  case 4
  then show ?case by auto
qed

declare aquicksort_loop.simps [simp del]

text \<open>
  \<^verbatim>\<open>npy_get_msb\<close> and the entry point: the positions start as \<^verbatim>\<open>0, 1, ..., num - 1\<close>,
  and the depth limit is \<^verbatim>\<open>npy_get_msb(num) * 2\<close>.
\<close>

fun npy_get_msb :: "nat \<Rightarrow> nat" where
  "npy_get_msb n = (if n div 2 = 0 then 0 else 1 + npy_get_msb (n div 2))"

declare npy_get_msb.simps [simp del]

definition npy_aquicksort :: "real list \<Rightarrow> nat list" where
  "npy_aquicksort v =
     aquicksort_loop v [0..<length v] 0 (length v - 1) (2 * int (npy_get_msb (length v))) [] True"

section \<open>The contract of argsort\<close>





section \<open>Example tables\<close>

text \<open>
  A row as read from the file: country, year and the listed numeric cells, each decimal
  of the file read as the nearest float64; a column that is not listed is missing.
\<close>

definition mk_row :: "string \<Rightarrow> int \<Rightarrow> (string \<times> real) list \<Rightarrow> row" where
  "mk_row c y kvs =
     \<lparr>country = Some c, year = Some y, vals = map_of (map (\<lambda>(k, x). (k, float64 x)) kvs)\<rparr>"

text \<open>The table of the spec's example scenario.\<close>

definition afghanistan_table :: frame where
  "afghanistan_table =
     \<lparr>columns = [''gov_exp_pct_gdp''],
      rows = [mk_row ''Afghanistan'' 2010 [(''gov_exp_pct_gdp'', 3.2)],
              mk_row ''Afghanistan'' 2011 [(''gov_exp_pct_gdp'', 3.5)]]\<rparr>"

text \<open>A table whose second-to-last row holds 0 in the metric column.\<close>

definition zero_previous_table :: frame where
  "zero_previous_table =
     \<lparr>columns = [''gov_exp_pct_gdp''],
      rows = [mk_row ''Chad'' 2010 [(''gov_exp_pct_gdp'', 5)],
              mk_row ''Chad'' 2011 [(''gov_exp_pct_gdp'', 0)],
              mk_row ''Chad'' 2012 [(''gov_exp_pct_gdp'', 7)]]\<rparr>"

text \<open>A table in which one country has no coordinates.\<close>

definition missing_coordinates_table :: frame where
  "missing_coordinates_table =
     \<lparr>columns = [''gov_exp_pct_gdp'', ''latitude'', ''longitude''],
      rows = [mk_row ''Kosovo'' 2015 [(''gov_exp_pct_gdp'', 4)],
              mk_row ''Kenya'' 2015 [(''gov_exp_pct_gdp'', 5), (''latitude'', 1), (''longitude'', 38)]]\<rparr>"


text \<open>Grouped scores with a tie and a missing score.\<close>

definition tied_scores :: "(string \<times> cell) list" where
  "tied_scores = [(''Chad'', Some 50), (''Kenya'', Some 70), (''Mali'', Some 50), (''Peru'', None)]"

text \<open>
  The defaults of the widgets of \<^verbatim>\<open>app.py\<close> (lines 37-46 and 100-107), and a table
  without the column \<^verbatim>\<open>pri_comp_rate_pct\<close>.
\<close>

definition default_selection :: selection where
  "default_selection =
     \<lparr>countries = [''United States''], years = (2010, 2020),
      metrics = [''gov_exp_pct_gdp'', ''school_enrol_primary_pct''],
      years_map = (2015, 2020), metric = ''gov_exp_pct_gdp''\<rparr>"

definition no_completion_rate_table :: frame where
  "no_completion_rate_table =
     \<lparr>columns = [''gov_exp_pct_gdp'', ''school_enrol_primary_pct'', ''school_enrol_secondary_pct'',
                 ''school_enrol_tertiary_pct''],
      rows = [mk_row ''United States'' 2016
                [(''gov_exp_pct_gdp'', 5), (''school_enrol_primary_pct'', 100),
                 (''school_enrol_secondary_pct'', 98), (''school_enrol_tertiary_pct'', 88)]]\<rparr>"

text \<open>
  A table with the five columns that \<^verbatim>\<open>app.py\<close> reads by default, and two selections
  that differ from the default one in the countries: one with no metric selected, one
  with another metric and another first year range.
\<close>

definition education_table :: frame where
  "education_table =
     \<lparr>columns = [''gov_exp_pct_gdp'', ''pri_comp_rate_pct'', ''school_enrol_primary_pct'',
                 ''school_enrol_secondary_pct'', ''school_enrol_tertiary_pct''],
      rows = [mk_row ''Canada'' 2016
                [(''gov_exp_pct_gdp'', 6), (''pri_comp_rate_pct'', 97),
                 (''school_enrol_primary_pct'', 101), (''school_enrol_secondary_pct'', 110),
                 (''school_enrol_tertiary_pct'', 70)],
              mk_row ''United States'' 2016
                [(''gov_exp_pct_gdp'', 5), (''pri_comp_rate_pct'', 99),
                 (''school_enrol_primary_pct'', 100), (''school_enrol_secondary_pct'', 98),
                 (''school_enrol_tertiary_pct'', 88)]]\<rparr>"

definition no_metrics_selection :: selection where
  "no_metrics_selection =
     \<lparr>countries = [''Canada''], years = (2010, 2020), metrics = [],
      years_map = (2015, 2020), metric = ''gov_exp_pct_gdp''\<rparr>"

definition tertiary_selection :: selection where
  "tertiary_selection =
     \<lparr>countries = [''Canada''], years = (2000, 2016), metrics = [''school_enrol_tertiary_pct''],
      years_map = (2015, 2020), metric = ''gov_exp_pct_gdp''\<rparr>"

section \<open>Facts about the primitives\<close>

lemma getitem_mask_map:
  "getitem_mask df (map p (rows df)) = df\<lparr>rows := filter p (rows df)\<rparr>"
proof -
  have "map fst (filter snd (zip xs (map p xs))) = filter p xs" for xs :: "row list"
    by (induction xs) auto
  then show ?thesis
    by (simp add: getitem_mask_def)
qed

lemma mask_and_map:
  "mask_and (map p xs) (map q xs) = map (\<lambda>x. p x \<and> q x) xs"
  by (induction xs) (auto simp: mask_and_def)

lemma filtered_data_filter:
  "filtered_data data cs ys =
     data\<lparr>rows := filter (selected cs (fst ys) (snd ys)) (rows data)\<rparr>"
proof -
  have "mask_and (isin (map country (rows data)) cs)
          (between (map year (rows data)) (fst ys) (snd ys)) =
        map (selected cs (fst ys) (snd ys)) (rows data)"
    unfolding isin_def between_def map_map comp_def selected_def
    by (rule mask_and_map)
  then show ?thesis
    unfolding filtered_data_def by (simp add: getitem_mask_map)
qed

lemma selected_iff:
  "selected cs lo hi r \<longleftrightarrow>
     (\<exists>c y. country r = Some c \<and> c \<in> set cs \<and> year r = Some y \<and> lo \<le> y \<and> y \<le> hi)"
  by (auto simp: selected_def split: option.splits)

lemma groupby_mean_keys:
  "fst ` set (groupby_mean key col df) = {k. \<exists>r\<in>set (rows df). key r = Some k}"
  by (force simp: groupby_mean_def image_image List.map_filter_def)

lemma groupby_mean_distinct: "distinct (map fst (groupby_mean key col df))"
  by (simp add: groupby_mean_def comp_def)

lemma groupby_mean_sorted: "sorted (map fst (groupby_mean key col df))"
  by (simp add: groupby_mean_def comp_def)

subsection \<open>Sorting by score\<close>














subsection \<open>Runs of the script\<close>

lemma run_stmts_invariant:
  assumes "\<And>f st. f \<in> set fs \<Longrightarrow> I st \<Longrightarrow> I (snd (f st))" and "I st"
  shows "I (snd (run_stmts fs st))"
  using assms
proof (induction fs arbitrary: st)
  case Nil
  then show ?case by simp
next
  case (Cons f fs)
  have step: "I (snd (f st))"
    using Cons.prems by simp
  show ?case
  proof (cases "f st")
    case (Pair e st')
    with step have "I st'" by simp
    then show ?thesis
      using Pair Cons.IH [of st'] Cons.prems(1) by (cases e) auto
  qed
qed

lemma table_kept_load: "table_kept table (load_data table)"
  by (simp add: table_kept_def load_data_def)

lemma table_kept_bind:
  "table_kept table st \<Longrightarrow> table_kept table (bind_filtered_data df st)"
  by (auto simp: table_kept_def bind_filtered_data_def)

lemma table_kept_emit: "table_kept table (emit x st) = table_kept table st"
  by (simp add: table_kept_def emit_def)

lemma table_kept_filter: "table_kept table st \<Longrightarrow> table_kept table (snd (stmt_filter sel st))"
  by (simp add: stmt_filter_def table_kept_bind)

lemma table_kept_columns: "table_kept table st \<Longrightarrow> table_kept table (snd (stmt_columns sel st))"
  by (simp add: stmt_columns_def)

lemma table_kept_metric: "table_kept table st \<Longrightarrow> table_kept table (snd (stmt_metric m st))"
  by (auto simp: stmt_metric_def with_filtered_data_def table_kept_emit
      split: option.splits sum.splits)

lemma table_kept_charts: "table_kept table st \<Longrightarrow> table_kept table (snd (stmt_charts st))"
  by (auto simp: stmt_charts_def with_filtered_data_def table_kept_emit split: option.splits)

lemma table_kept_filter_years:
  "table_kept table st \<Longrightarrow> table_kept table (snd (stmt_filter_years sel st))"
  by (simp add: stmt_filter_years_def table_kept_bind)

lemma table_kept_heatmap: "table_kept table st \<Longrightarrow> table_kept table (snd (stmt_heatmap sel st))"
  by (auto simp: stmt_heatmap_def with_filtered_data_def emit_def table_kept_def
      split: option.splits sum.splits)

lemma table_kept_composite:
  "table_kept table st \<Longrightarrow> table_kept table (snd (stmt_composite argsort st))"
  by (auto simp: stmt_composite_def with_filtered_data_def emit_def table_kept_def
      split: option.splits)

lemma table_kept_top_10: "table_kept table st \<Longrightarrow> table_kept table (snd (stmt_top_10 st))"
  by (auto simp: stmt_top_10_def emit_def table_kept_def split: option.splits)

lemma run_stmts_related:
  assumes "list_all2 (\<lambda>f g. \<forall>s t. R s t \<longrightarrow> fst (f s) = fst (g t) \<and> R (snd (f s)) (snd (g t))) fs gs"
    and "R s t"
  shows "fst (run_stmts fs s) = fst (run_stmts gs t) \<and>
         R (snd (run_stmts fs s)) (snd (run_stmts gs t))"
  using assms
proof (induction fs gs arbitrary: s t rule: list_all2_induct)
  case Nil
  then show ?case by simp
next
  case (Cons f fs g gs)
  obtain e s' where fs: "f s = (e, s')" by (cases "f s")
  obtain e' t' where gt: "g t = (e', t')" by (cases "g t")
  have "fst (f s) = fst (g t) \<and> R (snd (f s)) (snd (g t))"
    using Cons.hyps(1) Cons.prems by blast
  then have "e = e'" and "R s' t'"
    using fs gt by simp_all
  then show ?case
    using Cons.IH [of s' t'] fs gt by (cases e) auto
qed

lemma run_stmts_append:
  "run_stmts (fs @ gs) st =
     (case run_stmts fs st of (Some e, st') \<Rightarrow> (Some e, st') | (None, st') \<Rightarrow> run_stmts gs st')"
  by (induction fs arbitrary: st) (auto split: prod.splits option.splits)

lemma columns_filtered_data [simp]: "columns (filtered_data df cs ys) = columns df"
  by (simp add: filtered_data_filter)

lemma columns_filtered_data_years [simp]: "columns (filtered_data_years df ys) = columns df"
  by (simp add: filtered_data_years_def getitem_mask_def)

lemma emit_fields [simp]:
  "heap (emit x st) = heap st"
  "fresh (emit x st) = fresh st"
  "data_var (emit x st) = data_var st"
  "filtered_data_var (emit x st) = filtered_data_var st"
  "heatmap_data_var (emit x st) = heatmap_data_var st"
  "country_composite_scores_var (emit x st) = country_composite_scores_var st"
  "top_10_countries_var (emit x st) = top_10_countries_var st"
  "outs (emit x st) = outs st @ [x]"
  by (simp_all add: emit_def)

lemma map_outputs_emit:
  "map_outputs (emit x st) =
     (case map_outputs st of (h, c, t, os) \<Rightarrow> (h, c, t, os @ (if map_rendered x then [x] else [])))"
  by (simp add: map_outputs_def)

lemma rel_filter:
  "rel_table s t \<Longrightarrow>
     fst (stmt_filter sel s) = fst (stmt_filter sel' t) \<and>
     rel_table (snd (stmt_filter sel s)) (snd (stmt_filter sel' t))"
  by (auto simp: rel_table_def same_table_def fresh_above_def stmt_filter_def
      bind_filtered_data_def map_outputs_def)

lemma rel_columns:
  "metrics sel' = metrics sel \<Longrightarrow> rel_table s t \<Longrightarrow>
     fst (stmt_columns sel s) = fst (stmt_columns sel' t) \<and>
     rel_table (snd (stmt_columns sel s)) (snd (stmt_columns sel' t))"
  by (simp add: stmt_columns_def)

lemma metric_value_error:
  "metric_value df m = (if m \<in> set (columns df) then Inr (series_mean (map (\<lambda>r. vals r m) (rows df)))
     else Inl (KeyError m))"
  by (simp add: metric_value_def getitem_col_def)

lemma calculate_delta_no_error:
  "m \<in> set (columns df) \<Longrightarrow> \<exists>d p. calculate_delta df m = Inr (d, p)"
  by (simp add: calculate_delta_def getitem_col_def Let_def)

lemma stmt_metric_cases:
  "(m \<notin> set (columns (heap s a)) \<and> stmt_metric m s = (Some (KeyError m), s)) \<or>
     (m \<in> set (columns (heap s a)) \<and> (\<exists>v d p. stmt_metric m s = (None, emit (Metric m v d p) s)))"
  if "filtered_data_var s = Some a"
proof (cases "m \<in> set (columns (heap s a))")
  case True
  then obtain d p where "calculate_delta (heap s a) m = Inr (d, p)"
    using calculate_delta_no_error by blast
  with True that have "stmt_metric m s =
      (None, emit (Metric m (series_mean (map (\<lambda>r. vals r m) (rows (heap s a)))) d p) s)"
    by (simp add: stmt_metric_def display_metric_def with_filtered_data_def metric_value_error)
  with True show ?thesis by blast
next
  case False
  with that show ?thesis
    by (simp add: stmt_metric_def with_filtered_data_def metric_value_error)
qed

lemma rel_table_emit:
  "\<not> map_rendered x \<Longrightarrow> \<not> map_rendered y \<Longrightarrow> rel_table s t \<Longrightarrow> rel_table (emit x s) (emit y t)"
  by (auto simp: rel_table_def same_table_def fresh_above_def map_outputs_emit
      split: prod.splits option.splits)

lemma rel_metric:
  assumes "rel_table s t"
  shows "fst (stmt_metric m s) = fst (stmt_metric m t) \<and>
         rel_table (snd (stmt_metric m s)) (snd (stmt_metric m t))"
proof (cases "filtered_data_var s")
  case None
  with assms have "filtered_data_var t = None"
    by (simp add: rel_table_def same_table_def)
  with None assms show ?thesis
    by (simp add: stmt_metric_def with_filtered_data_def)
next
  case (Some a)
  with assms obtain b where b: "filtered_data_var t = Some b"
    and cols: "columns (heap s a) = columns (heap t b)"
    by (auto simp: rel_table_def same_table_def split: option.splits)
  from stmt_metric_cases [OF Some, of m] stmt_metric_cases [OF b, of m] cols assms
  show ?thesis
    by (auto simp: rel_table_emit)
qed

lemma rel_charts:
  assumes "rel_table s t"
  shows "fst (stmt_charts s) = fst (stmt_charts t) \<and>
         rel_table (snd (stmt_charts s)) (snd (stmt_charts t))"
proof (cases "filtered_data_var s")
  case None
  with assms have "filtered_data_var t = None"
    by (simp add: rel_table_def same_table_def)
  with None assms show ?thesis
    by (simp add: stmt_charts_def with_filtered_data_def)
next
  case (Some a)
  with assms obtain b where "filtered_data_var t = Some b"
    by (auto simp: rel_table_def same_table_def split: option.splits)
  with Some assms show ?thesis
    by (simp add: stmt_charts_def with_filtered_data_def rel_table_emit)
qed

lemma rel_filter_years:
  "years_map sel' = years_map sel \<Longrightarrow> rel_table s t \<Longrightarrow>
     fst (stmt_filter_years sel s) = fst (stmt_filter_years sel' t) \<and>
     rel_view (snd (stmt_filter_years sel s)) (snd (stmt_filter_years sel' t))"
  by (auto simp: rel_table_def rel_view_def same_view_def same_table_def fresh_above_def
      stmt_filter_years_def bind_filtered_data_def map_outputs_def)

lemma rel_view_bound:
  assumes "rel_view s t"
  obtains "filtered_data_var s = None" and "filtered_data_var t = None"
  | a b where "filtered_data_var s = Some a" and "filtered_data_var t = Some b"
      and "heap s a = heap t b" and "a \<noteq> data_var s" and "b \<noteq> data_var t"
  using assms
  by (cases "filtered_data_var s"; cases "filtered_data_var t")
    (auto simp: rel_view_def same_view_def same_table_def)

lemma rel_heatmap:
  assumes "metric sel' = metric sel" and "rel_view s t"
  shows "fst (stmt_heatmap sel s) = fst (stmt_heatmap sel' t) \<and>
         rel_view (snd (stmt_heatmap sel s)) (snd (stmt_heatmap sel' t))"
  using assms(2)
proof (cases rule: rel_view_bound)
  case 1
  with assms show ?thesis
    by (simp add: stmt_heatmap_def with_filtered_data_def)
next
  case (2 a b)
  with assms show ?thesis
    by (auto simp: stmt_heatmap_def with_filtered_data_def rel_view_def same_view_def
        same_table_def fresh_above_def map_outputs_def split: sum.splits)
qed

lemma rel_composite:
  assumes "rel_view s t"
  shows "fst (stmt_composite argsort s) = fst (stmt_composite argsort t) \<and>
         rel_view (snd (stmt_composite argsort s)) (snd (stmt_composite argsort t))"
  using assms
proof (cases rule: rel_view_bound)
  case 1
  with assms show ?thesis
    by (simp add: stmt_composite_def with_filtered_data_def)
next
  case (2 a b)
  with assms show ?thesis
    by (auto simp: stmt_composite_def with_filtered_data_def rel_view_def same_view_def
        same_table_def fresh_above_def map_outputs_def)
qed

lemma rel_top_10:
  assumes "rel_view s t"
  shows "fst (stmt_top_10 s) = fst (stmt_top_10 t) \<and>
         rel_view (snd (stmt_top_10 s)) (snd (stmt_top_10 t))"
proof -
  from assms have "country_composite_scores_var s = country_composite_scores_var t"
    by (simp add: rel_view_def same_view_def same_table_def map_outputs_def)
  with assms show ?thesis
    by (auto simp: stmt_top_10_def rel_view_def same_view_def same_table_def fresh_above_def
        map_outputs_def split: option.splits)
qed

lemma rel_view_table: "rel_view s t \<Longrightarrow> rel_table s t"
  by (simp add: rel_view_def rel_table_def same_view_def)

lemma rel_table_load: "rel_table (load_data table) (load_data table)"
  by (simp add: rel_table_def same_table_def fresh_above_def load_data_def)

lemma rel_first_pass:
  assumes "metrics sel' = metrics sel" and "rel_table s t"
  shows "fst (run_stmts (first_pass sel') s) = fst (run_stmts (first_pass sel) t) \<and>
         rel_table (snd (run_stmts (first_pass sel') s)) (snd (run_stmts (first_pass sel) t))"
proof (rule run_stmts_related [where R = rel_table, OF _ assms(2)])
  have "list_all2 (\<lambda>f g. \<forall>s t. rel_table s t \<longrightarrow>
            fst (f s) = fst (g t) \<and> rel_table (snd (f s)) (snd (g t)))
          (map stmt_metric ms) (map stmt_metric ms)" for ms
    by (induction ms) (simp_all add: rel_metric)
  then show "list_all2 (\<lambda>f g. \<forall>s t. rel_table s t \<longrightarrow>
            fst (f s) = fst (g t) \<and> rel_table (snd (f s)) (snd (g t)))
          (first_pass sel') (first_pass sel)"
    unfolding first_pass_def
    using assms(1) rel_filter [of _ _ sel' sel] rel_columns [of sel sel'] rel_charts
    by (auto intro!: list_all2_appendI)
qed

lemma rel_second_pass:
  assumes "years_map sel' = years_map sel" and "metric sel' = metric sel" and "rel_table s t"
  shows "fst (run_stmts (second_pass argsort sel') s) = fst (run_stmts (second_pass argsort sel) t) \<and>
         rel_table (snd (run_stmts (second_pass argsort sel') s))
                   (snd (run_stmts (second_pass argsort sel) t))"
proof -
  have none: "fst (stmt_filter_years x u) = None" for x u
    by (simp add: stmt_filter_years_def)
  have v: "rel_view (snd (stmt_filter_years sel' s)) (snd (stmt_filter_years sel t))"
    using rel_filter_years [where sel = sel' and sel' = sel, of s t] assms by simp
  have rest: "fst (run_stmts [stmt_heatmap sel', stmt_composite argsort, stmt_top_10]
                (snd (stmt_filter_years sel' s))) =
        fst (run_stmts [stmt_heatmap sel, stmt_composite argsort, stmt_top_10]
                (snd (stmt_filter_years sel t))) \<and>
        rel_view
          (snd (run_stmts [stmt_heatmap sel', stmt_composite argsort, stmt_top_10]
                (snd (stmt_filter_years sel' s))))
          (snd (run_stmts [stmt_heatmap sel, stmt_composite argsort, stmt_top_10]
                (snd (stmt_filter_years sel t))))"
  proof (rule run_stmts_related [where R = rel_view, OF _ v])
    show "list_all2 (\<lambda>f g. \<forall>s t. rel_view s t \<longrightarrow>
            fst (f s) = fst (g t) \<and> rel_view (snd (f s)) (snd (g t)))
          [stmt_heatmap sel', stmt_composite argsort, stmt_top_10]
          [stmt_heatmap sel, stmt_composite argsort, stmt_top_10]"
      using rel_heatmap [of sel sel'] assms(2) rel_composite rel_top_10 by simp
  qed
  have unroll: "run_stmts (stmt_filter_years x # fs) u = run_stmts fs (snd (stmt_filter_years x u))"
    for x fs u
    using none [of x u] by (cases "stmt_filter_years x u") simp
  from rest show ?thesis
    unfolding second_pass_def by (simp only: unroll rel_view_table)
qed

lemma app_related:
  assumes "metrics sel' = metrics sel" and "years_map sel' = years_map sel"
    and "metric sel' = metric sel"
  shows "fst (app argsort table sel') = fst (app argsort table sel) \<and>
         rel_table (snd (app argsort table sel')) (snd (app argsort table sel))"
proof -
  obtain e s where s: "run_stmts (first_pass sel') (load_data table) = (e, s)"
    by (cases "run_stmts (first_pass sel') (load_data table)")
  obtain e' t where t: "run_stmts (first_pass sel) (load_data table) = (e', t)"
    by (cases "run_stmts (first_pass sel) (load_data table)")
  from rel_first_pass [OF assms(1) rel_table_load, of table] s t
  have "e' = e" and r: "rel_table s t"
    by simp_all
  with t have t': "run_stmts (first_pass sel) (load_data table) = (e, t)"
    by simp
  show ?thesis
  proof (cases e)
    case None
    with s t' rel_second_pass [OF assms(2,3) r, of argsort] show ?thesis
      by (simp add: app_def run_stmts_append)
  next
    case (Some x)
    with s t' r show ?thesis
      by (simp add: app_def run_stmts_append)
  qed
qed

lemma rel_table_sym: "rel_table s t \<Longrightarrow> rel_table t s"
  by (auto simp: rel_table_def same_table_def split: option.splits)

lemma rel_table_trans: "rel_table s t \<Longrightarrow> rel_table t u \<Longrightarrow> rel_table s u"
  by (auto simp: rel_table_def same_table_def split: option.splits)

lemma run_stmts_completed:
  assumes "\<And>f st. f \<in> set fs \<Longrightarrow> I st \<Longrightarrow> fst (f st) = None \<Longrightarrow> I (snd (f st))"
    and "I st" and "fst (run_stmts fs st) = None"
  shows "I (snd (run_stmts fs st))"
  using assms
proof (induction fs arbitrary: st)
  case Nil
  then show ?case by simp
next
  case (Cons f fs)
  obtain e st' where f: "f st = (e, st')" by (cases "f st")
  with Cons.prems(3) have e: "e = None"
    by (cases e) auto
  with f Cons.prems(1) [of f st] Cons.prems(2) have "I st'"
    by simp
  moreover from f e Cons.prems(3) have "fst (run_stmts fs st') = None"
    by simp
  ultimately have "I (snd (run_stmts fs st'))"
    using Cons.IH [of st'] Cons.prems(1) by simp
  with f e show ?case by simp
qed

lemma left_columns: "rel_table s t \<Longrightarrow> rel_table (snd (stmt_columns sel s)) t"
  by (simp add: stmt_columns_def)

lemma left_emit: "\<not> map_rendered x \<Longrightarrow> rel_table s t \<Longrightarrow> rel_table (emit x s) t"
  by (auto simp: rel_table_def same_table_def fresh_above_def map_outputs_emit
      split: prod.splits option.splits)

lemma left_metric:
  assumes "rel_table s t"
  shows "rel_table (snd (stmt_metric m s)) t"
proof (cases "filtered_data_var s")
  case None
  with assms show ?thesis
    by (simp add: stmt_metric_def with_filtered_data_def)
next
  case (Some a)
  from stmt_metric_cases [OF Some, of m] assms show ?thesis
    by (auto simp: left_emit)
qed

lemma left_charts:
  assumes "rel_table s t"
  shows "rel_table (snd (stmt_charts s)) t"
  using assms
  by (cases "filtered_data_var s") (simp_all add: stmt_charts_def with_filtered_data_def left_emit)

lemma first_pass_unfold:
  "run_stmts (first_pass sel) st =
     run_stmts (stmt_columns sel # map stmt_metric (metrics sel) @ [stmt_charts])
       (snd (stmt_filter sel st))"
  by (simp add: first_pass_def stmt_filter_def)

lemma first_pass_completed:
  assumes "fst (run_stmts (first_pass sel) (load_data table)) = None"
  shows "rel_table (snd (run_stmts (first_pass sel) (load_data table)))
           (snd (stmt_filter sel (load_data table)))"
proof -
  let ?ref = "snd (stmt_filter sel (load_data table))"
  have ref: "rel_table ?ref ?ref"
    using rel_filter [OF rel_table_load, of sel table sel] by simp
  show ?thesis
    unfolding first_pass_unfold
  proof (rule run_stmts_completed [where I = "\<lambda>s. rel_table s ?ref"])
    fix f st
    assume "f \<in> set (stmt_columns sel # map stmt_metric (metrics sel) @ [stmt_charts])"
      and "rel_table st ?ref"
    then show "rel_table (snd (f st)) ?ref"
      using left_columns left_metric left_charts by auto
  next
    show "rel_table ?ref ?ref" by (rule ref)
  next
    show "fst (run_stmts (stmt_columns sel # map stmt_metric (metrics sel) @ [stmt_charts]) ?ref) = None"
      using assms by (simp only: first_pass_unfold)
  qed
qed

lemma view_columns_emit [simp]: "view_columns cols (emit x st) = view_columns cols st"
  by (simp add: view_columns_def split: option.splits)

lemma stmt_metric_view:
  assumes "view_columns cols st"
  shows "(m \<in> set cols \<longrightarrow> fst (stmt_metric m st) = None \<and> view_columns cols (snd (stmt_metric m st))) \<and>
         (m \<notin> set cols \<longrightarrow> fst (stmt_metric m st) \<noteq> None)"
proof -
  from assms obtain a where a: "filtered_data_var st = Some a" and c: "columns (heap st a) = cols"
    by (auto simp: view_columns_def split: option.splits)
  from stmt_metric_cases [OF a, of m] c assms show ?thesis
    by auto
qed

lemma metrics_run:
  assumes "view_columns cols st"
  shows "fst (run_stmts (map stmt_metric ms @ [stmt_charts]) st) = None \<longleftrightarrow> set ms \<subseteq> set cols"
  using assms
proof (induction ms arbitrary: st)
  case Nil
  then show ?case
    by (auto simp: view_columns_def stmt_charts_def with_filtered_data_def split: option.splits)
next
  case (Cons m ms)
  show ?case
  proof (cases "m \<in> set cols")
    case True
    with stmt_metric_view [OF Cons.prems, of m]
    have n: "fst (stmt_metric m st) = None" and v: "view_columns cols (snd (stmt_metric m st))"
      by simp_all
    from n have "run_stmts (map stmt_metric (m # ms) @ [stmt_charts]) st =
        run_stmts (map stmt_metric ms @ [stmt_charts]) (snd (stmt_metric m st))"
      by (cases "stmt_metric m st") simp
    with Cons.IH [OF v] True show ?thesis by simp
  next
    case False
    with stmt_metric_view [OF Cons.prems, of m] have "fst (stmt_metric m st) \<noteq> None"
      by simp
    then have "fst (run_stmts (map stmt_metric (m # ms) @ [stmt_charts]) st) \<noteq> None"
      by (cases "stmt_metric m st") auto
    with False show ?thesis by simp
  qed
qed

lemma first_pass_completes_iff:
  "fst (run_stmts (first_pass sel) (load_data table)) = None \<longleftrightarrow>
     metrics sel \<noteq> [] \<and> set (metrics sel) \<subseteq> set (columns table)"
proof -
  let ?s = "snd (stmt_filter sel (load_data table))"
  have v: "view_columns (columns table) ?s"
    by (simp add: view_columns_def stmt_filter_def bind_filtered_data_def load_data_def)
  show ?thesis
  proof (cases "metrics sel = []")
    case True
    then show ?thesis
      by (simp add: first_pass_unfold stmt_columns_def)
  next
    case False
    then have "run_stmts (stmt_columns sel # map stmt_metric (metrics sel) @ [stmt_charts]) ?s =
        run_stmts (map stmt_metric (metrics sel) @ [stmt_charts]) ?s"
      by (simp add: stmt_columns_def)
    with metrics_run [OF v, of "metrics sel"] False show ?thesis
      by (simp add: first_pass_unfold)
  qed
qed

lemmas run_eval =
  app_def first_pass_def second_pass_def load_data_def stmt_filter_def stmt_columns_def
  stmt_metric_def display_metric_def stmt_charts_def stmt_filter_years_def stmt_heatmap_def
  stmt_composite_def stmt_top_10_def with_filtered_data_def bind_filtered_data_def emit_def
  filtered_data_filter selected_def mk_row_def filtered_data_years_def between_def
  getitem_mask_def metric_value_def calculate_delta_def getitem_col_def series_mean_def
  heatmap_data_def groupby_mean_def indicators_def float64_def round_half_even_def
  nan_sub_def nan_div_def nan_mul_def nan_ne0_def

lemma top_n_short_list:
  "top_n_countries npy_aquicksort 10 tied_scores =
     [(''Kenya'', Some 70), (''Chad'', Some 50), (''Mali'', Some 50), (''Peru'', None)]"
  by code_simp

lemma stmt_composite_missing:
  assumes "filtered_data_var st = Some a"
    and "\<not> list_all (\<lambda>indicator. indicator \<in> set (columns (heap st a))) indicators"
    and "country_composite_scores_var st = None"
  shows "run_stmts [stmt_composite argsort, stmt_top_10] st =
           (Some (NameError ''country_composite_scores''),
            emit (ErrorMessage ''Required indicators for composite metric are missing in the dataset.'') st)"
  using assms
  by (simp add: stmt_composite_def stmt_top_10_def with_filtered_data_def emit_def)

lemma stmt_composite_present:
  assumes "filtered_data_var st = Some a"
    and "list_all (\<lambda>indicator. indicator \<in> set (columns (heap st a))) indicators"
  shows "stmt_composite argsort st =
           (None, st\<lparr>heap := (heap st)(a := with_composite_metric (heap st a)),
                      country_composite_scores_var :=
                        Some (country_composite_scores argsort (heap st a))\<rparr>)"
  using assms by (simp add: stmt_composite_def with_filtered_data_def)

lemma top_10_is_top_n:
  "top_10_countries (country_composite_scores argsort df) =
     top_n_countries argsort 10 (groupby_mean country ''composite_metric'' (with_composite_metric df))"
  by (simp add: top_10_countries_def country_composite_scores_def top_n_countries_def)

section \<open>Filter: the selected rows\<close>

text \<open>
  C3. For every table, list of selected countries and year bounds, the filtered view
  of lines 49-50 has the table's columns and exactly those rows of the table, in the
  table's order and with their multiplicity, whose country cell is one of the selected
  strings (equality of strings, hence case-sensitive) and whose year \<open>y\<close> satisfies
  \<open>lo \<le> y \<le> hi\<close>, both bounds included.
\<close>

theorem filter_exact_rows:
  "rows (filtered_data data cs (lo, hi)) =
     filter (\<lambda>r. country r \<in> Some ` set cs \<and> year r \<in> Some ` {lo..hi}) (rows data) \<and>
   columns (filtered_data data cs (lo, hi)) = columns data"
proof -
  have "selected cs lo hi = (\<lambda>r. country r \<in> Some ` set cs \<and> year r \<in> Some ` {lo..hi})"
    by (rule ext) (auto simp: selected_iff)
  then show ?thesis
    by (simp add: filtered_data_filter)
qed

theorem filter_exact_rows_witness:
  "rows (filtered_data afghanistan_table [''Afghanistan''] (2010, 2010)) =
     [mk_row ''Afghanistan'' 2010 [(''gov_exp_pct_gdp'', 3.2)]] \<and>
   rows (filtered_data afghanistan_table [''afghanistan''] (2010, 2011)) = []"
  using filter_exact_rows [of afghanistan_table "[''Afghanistan'']" 2010 2010]
    filter_exact_rows [of afghanistan_table "[''afghanistan'']" 2010 2011]
  by (simp add: afghanistan_table_def mk_row_def)

text \<open>
  C7. Filter does not fail: \<open>filtered_data\<close> is a total function into frames, and the
  statement of lines 49-50 raises nothing in any state of a run. With no country
  selected the view has no rows, for every table and year range; and with \<open>lo > hi\<close>
  the view has no rows, for every table and country selection.
\<close>

theorem filter_empty_view:
  "fst (stmt_filter sel st) = None \<and>
   rows (filtered_data data [] ys) = [] \<and>
   (hi < lo \<longrightarrow> rows (filtered_data data cs (lo, hi)) = [])"
  by (auto simp: stmt_filter_def filtered_data_filter selected_iff filter_empty_conv)

theorem filter_empty_view_witness:
  "fst (stmt_filter default_selection (load_data afghanistan_table)) = None \<and>
   rows (filtered_data afghanistan_table [] (2010, 2011)) = [] \<and>
   (2011::int) < 2012 \<and>
   rows (filtered_data afghanistan_table [''Afghanistan''] (2012, 2011)) = []"
  using filter_empty_view [of default_selection "load_data afghanistan_table" afghanistan_table
      "(2010, 2011)" 2011 2012 "[''Afghanistan'']"]
  by simp

text \<open>
  C8. Filtering a filtered view again with the same countries and year range returns
  the same view.
\<close>

theorem filter_idempotent:
  "filtered_data (filtered_data data cs ys) cs ys = filtered_data data cs ys"
  by (simp add: filtered_data_filter)

section \<open>Metric summary: delta and delta percent\<close>

text \<open>
  C4. On a view with fewer than two rows \<^verbatim>\<open>calculate_delta\<close> returns delta 0 and delta
  percent 0, for every column label. On a view with at least two rows and a column
  whose second-to-last cell is exactly 0, the delta percent is 0 whatever the last cell
  is, and the delta is the last cell minus the second-to-last cell.
\<close>

theorem calculate_delta_degenerate:
  "(length (rows df) < 2 \<longrightarrow> calculate_delta df c = Inr (Some 0, Some 0)) \<and>
   (2 \<le> length (rows df) \<and> c \<in> set (columns df) \<and>
    vals (rows df ! (length (rows df) - 2)) c = Some 0 \<longrightarrow>
      calculate_delta df c =
        Inr (nan_sub (vals (last (rows df)) c) (vals (rows df ! (length (rows df) - 2)) c),
             Some 0))"
proof (intro conjI impI)
  assume "length (rows df) < 2"
  then show "calculate_delta df c = Inr (Some 0, Some 0)"
    by (simp add: calculate_delta_def)
next
  assume h: "2 \<le> length (rows df) \<and> c \<in> set (columns df) \<and>
    vals (rows df ! (length (rows df) - 2)) c = Some 0"
  then have "rows df \<noteq> []" by auto
  then have l: "last (rows df) = rows df ! (length (rows df) - 1)"
    by (rule last_conv_nth)
  from h have i: "length (rows df) - 1 < length (rows df)" "length (rows df) - 2 < length (rows df)"
    by auto
  from h have p: "vals (rows df ! (length (rows df) - 2)) c = Some 0" and k: "c \<in> set (columns df)"
    and n: "\<not> length (rows df) < 2"
    by auto
  from i l p k n show "calculate_delta df c =
        Inr (nan_sub (vals (last (rows df)) c) (vals (rows df ! (length (rows df) - 2)) c),
             Some 0)"
    by (simp add: calculate_delta_def getitem_col_def nan_ne0_def Let_def)
qed

theorem calculate_delta_degenerate_witness:
  "length (rows (filtered_data zero_previous_table [''Chad''] (2012, 2012))) < 2 \<and>
   calculate_delta (filtered_data zero_previous_table [''Chad''] (2012, 2012)) ''gov_exp_pct_gdp'' =
     Inr (Some 0, Some 0) \<and>
   2 \<le> length (rows zero_previous_table) \<and>
   ''gov_exp_pct_gdp'' \<in> set (columns zero_previous_table) \<and>
   vals (rows zero_previous_table ! (length (rows zero_previous_table) - 2)) ''gov_exp_pct_gdp'' = Some 0 \<and>
   calculate_delta zero_previous_table ''gov_exp_pct_gdp'' = Inr (Some 7, Some 0)"
  using calculate_delta_degenerate [of "filtered_data zero_previous_table [''Chad''] (2012, 2012)" "''gov_exp_pct_gdp''"]
    calculate_delta_degenerate [of zero_previous_table "''gov_exp_pct_gdp''"]
  by (simp add: zero_previous_table_def mk_row_def nan_sub_def filtered_data_filter selected_def
      float64_def round_half_even_def)

text \<open>
  C5, as stated, does not hold in float64 arithmetic. On the table with the two rows
  Afghanistan 2010 (3.2) and Afghanistan 2011 (3.5), filtered by the country
  Afghanistan and the years 2010 to 2011, the delta that \<^verbatim>\<open>calculate_delta\<close> returns
  is the double 0.2999999999999998 (\<open>337769972052787 / 2 ^ 50\<close>): it lies below the
  double nearest to 0.3, which itself lies below 0.3.
\<close>

theorem afghanistan_delta_counterexample:
  "calculate_delta (filtered_data afghanistan_table [''Afghanistan''] (2010, 2011)) ''gov_exp_pct_gdp'' =
     Inr (Some (337769972052787 / 2 ^ 50), Some (5277655813324797 / 2 ^ 49)) \<and>
   (337769972052787 / 2 ^ 50 :: real) < float64 0.3 \<and> float64 0.3 < 0.3"
  by (simp add: filtered_data_filter selected_def afghanistan_table_def mk_row_def
      calculate_delta_def getitem_col_def nan_sub_def nan_div_def nan_mul_def nan_ne0_def
      float64_def round_half_even_def)

text \<open>
  C5, amended. On that table Filter returns both rows, in year order. On the view the
  mean of \<^verbatim>\<open>gov_exp_pct_gdp\<close> is the double nearest to 3.35; the delta is the double
  0.2999999999999998, within \<open>1 / 10 ^ 15\<close> of 0.3; and the delta percent is the double
  9.374999999999995 (\<open>5277655813324797 / 2 ^ 49\<close>), within \<open>1 / 10 ^ 14\<close> of 9.375.
\<close>

theorem afghanistan_scenario:
  "rows (filtered_data afghanistan_table [''Afghanistan''] (2010, 2011)) = rows afghanistan_table \<and>
   map year (rows (filtered_data afghanistan_table [''Afghanistan''] (2010, 2011))) =
     [Some 2010, Some 2011] \<and>
   metric_value (filtered_data afghanistan_table [''Afghanistan''] (2010, 2011)) ''gov_exp_pct_gdp'' =
     Inr (Some (float64 3.35)) \<and>
   calculate_delta (filtered_data afghanistan_table [''Afghanistan''] (2010, 2011)) ''gov_exp_pct_gdp'' =
     Inr (Some (337769972052787 / 2 ^ 50), Some (5277655813324797 / 2 ^ 49)) \<and>
   \<bar>337769972052787 / 2 ^ 50 - 0.3 :: real\<bar> < 1 / 10 ^ 15 \<and>
   \<bar>5277655813324797 / 2 ^ 49 - 9.375 :: real\<bar> < 1 / 10 ^ 14"
  by (simp add: filtered_data_filter selected_def afghanistan_table_def mk_row_def
      metric_value_def calculate_delta_def getitem_col_def series_mean_def
      nan_sub_def nan_div_def nan_mul_def nan_ne0_def float64_def round_half_even_def)

section \<open>Grouped means: the keys\<close>

text \<open>
  C9, as stated, does not hold: pandas leaves a row with a missing key cell out of
  every group. In the table below Kosovo has no latitude and no longitude, and the
  grouped means of line 51 have the one key of Kenya, although the rows of the view
  carry two distinct key values.
\<close>

theorem group_keys_missing_coordinates_counterexample:
  "bubble_data missing_coordinates_table ''gov_exp_pct_gdp'' = Inr [((''Kenya'', 1, 38), Some 5)] \<and>
   map group_key_cells (rows missing_coordinates_table) =
     [(Some ''Kosovo'', None, None), (Some ''Kenya'', Some 1, Some 38)]"
  by (simp add: bubble_data_def missing_coordinates_table_def mk_row_def groupby_mean_def
      bubble_key_def series_mean_def group_key_cells_def float64_def round_half_even_def)

text \<open>
  C9, amended. When the grouped mean is computed (the columns exist), its keys are
  exactly the distinct key values of those rows of the view in which no key cell is
  missing: the countries of the rows with a country for line 118 (and line 37 of
  \<^verbatim>\<open>heatmap.py\<close>), and the triples of country, latitude and longitude of the rows that
  have all three for line 51.
\<close>

theorem group_mean_keys:
  "(heatmap_data df m = Inr h \<longrightarrow>
      fst ` set h = {c. \<exists>r\<in>set (rows df). country r = Some c}) \<and>
   (bubble_data df m = Inr b \<longrightarrow>
      fst ` set b =
        {(c, la, lo). \<exists>r\<in>set (rows df).
           country r = Some c \<and> vals r ''latitude'' = Some la \<and> vals r ''longitude'' = Some lo})"
proof (intro conjI impI)
  assume "heatmap_data df m = Inr h"
  then have "h = groupby_mean country m df"
    by (auto simp: heatmap_data_def split: if_splits)
  then show "fst ` set h = {c. \<exists>r\<in>set (rows df). country r = Some c}"
    by (simp add: groupby_mean_keys)
next
  assume "bubble_data df m = Inr b"
  then have "b = groupby_mean bubble_key m df"
    by (auto simp: bubble_data_def split: if_splits)
  moreover have "bubble_key r = Some (c, la, lo) \<longleftrightarrow>
      country r = Some c \<and> vals r ''latitude'' = Some la \<and> vals r ''longitude'' = Some lo"
    for r c la lo
    by (auto simp: bubble_key_def split: option.splits)
  ultimately show "fst ` set b =
        {(c, la, lo). \<exists>r\<in>set (rows df).
           country r = Some c \<and> vals r ''latitude'' = Some la \<and> vals r ''longitude'' = Some lo}"
    by (auto simp: groupby_mean_keys)
qed

theorem group_mean_keys_witness:
  "heatmap_data missing_coordinates_table ''gov_exp_pct_gdp'' =
     Inr [(''Kenya'', Some 5), (''Kosovo'', Some 4)] \<and>
   fst ` set [(''Kenya'', Some (5::real)), (''Kosovo'', Some 4)] =
     {c. \<exists>r\<in>set (rows missing_coordinates_table). country r = Some c} \<and>
   bubble_data missing_coordinates_table ''gov_exp_pct_gdp'' = Inr [((''Kenya'', 1, 38), Some 5)] \<and>
   fst ` set [((''Kenya'', 1::real, 38::real), Some (5::real))] =
     {(c, la, lo). \<exists>r\<in>set (rows missing_coordinates_table).
        country r = Some c \<and> vals r ''latitude'' = Some la \<and> vals r ''longitude'' = Some lo}"
proof -
  have h: "heatmap_data missing_coordinates_table ''gov_exp_pct_gdp'' =
     Inr [(''Kenya'', Some 5), (''Kosovo'', Some 4)]"
    by (simp add: heatmap_data_def missing_coordinates_table_def mk_row_def groupby_mean_def
        series_mean_def float64_def round_half_even_def)
  have b: "bubble_data missing_coordinates_table ''gov_exp_pct_gdp'' =
     Inr [((''Kenya'', 1, 38), Some 5)]"
    by (simp add: bubble_data_def missing_coordinates_table_def mk_row_def groupby_mean_def
        bubble_key_def series_mean_def float64_def round_half_even_def)
  from h b group_mean_keys [of missing_coordinates_table "''gov_exp_pct_gdp''"
      "[(''Kenya'', Some 5), (''Kosovo'', Some 4)]" "[((''Kenya'', 1, 38), Some 5)]"]
  show ?thesis by blast
qed

section \<open>Top-N\<close>




section \<open>The composite score when an indicator column is missing\<close>

text \<open>
  C1. The check of line 140 calls \<^verbatim>\<open>st.error\<close> exactly when one of the four indicator
  columns is missing, and binds \<^verbatim>\<open>country_composite_scores\<close> otherwise. The claim that
  the Top-10 step still completes after the message does not hold of the code: on a
  table without \<^verbatim>\<open>pri_comp_rate_pct\<close>, with the default widget values, the run shows the
  message and then ends at line 158 with \<^verbatim>\<open>NameError\<close>, because
  \<^verbatim>\<open>country_composite_scores\<close> was never bound; no Top-10 table is produced.
\<close>

theorem missing_indicator_run:
  "fst (app argsort no_completion_rate_table default_selection) =
     Some (NameError ''country_composite_scores'') \<and>
   last (outs (snd (app argsort no_completion_rate_table default_selection))) =
     ErrorMessage ''Required indicators for composite metric are missing in the dataset.'' \<and>
   top_10_countries_var (snd (app argsort no_completion_rate_table default_selection)) = None"
  by (simp add: app_def first_pass_def second_pass_def default_selection_def
      no_completion_rate_table_def load_data_def stmt_filter_def stmt_columns_def
      stmt_metric_def display_metric_def stmt_charts_def stmt_filter_years_def
      stmt_heatmap_def stmt_composite_def stmt_top_10_def with_filtered_data_def
      bind_filtered_data_def emit_def filtered_data_filter selected_def mk_row_def
      filtered_data_years_def between_def getitem_mask_def metric_value_def calculate_delta_def
      getitem_col_def series_mean_def heatmap_data_def groupby_mean_def indicators_def)

section \<open>The second pass and the selections of the first pass\<close>

text \<open>
  C6, as stated, does not hold. Two runs over the same table with the same second year
  range and the same metric, and with different country selections, need not produce
  the same outputs: when one of them has no metric selected in the first pass,
  line 57 raises and its second pass never runs, so that it has no heatmap data,
  while the other run has.
\<close>

theorem second_pass_metrics_counterexample:
  "years_map no_metrics_selection = years_map default_selection \<and>
   metric no_metrics_selection = metric default_selection \<and>
   countries no_metrics_selection \<noteq> countries default_selection \<and>
   fst (app npy_aquicksort education_table no_metrics_selection) = Some StreamlitAPIException \<and>
   heatmap_data_var (snd (app npy_aquicksort education_table no_metrics_selection)) = None \<and>
   fst (app npy_aquicksort education_table default_selection) = None \<and>
   heatmap_data_var (snd (app npy_aquicksort education_table default_selection)) =
     Some [(''Canada'', Some 6), (''United States'', Some 5)]"
  by (simp add: run_eval default_selection_def no_metrics_selection_def education_table_def
      country_composite_scores_def with_composite_metric_def setitem_col_def mean_axis1_def
      sort_values_desc_def nargsort_desc_def top_10_countries_def head_def
      npy_aquicksort_def aquicksort_loop.simps insertion_sort_def insert_one_def
      shift_down.simps npy_get_msb.simps SMALL_QUICKSORT_def)

text \<open>
  C6, amended. Two runs of \<^verbatim>\<open>app.py\<close> over the same table with the same second year
  range and the same metric end alike, with the same exception or none, and with the
  same heatmap data, per-country composite scores, Top-10 table and second-pass
  outputs, whatever their country selections and first year ranges, provided that
  they have the same metrics selection, or that each has a non-empty metrics selection
  naming only columns of the table (the first pass then completes in both). The
  bubble map is drawn by \<^verbatim>\<open>heatmap.py\<close>, whose run \<open>heatmap_page\<close> takes the table, a
  year range and a metric and no country selection at all.
\<close>

theorem second_pass_ignores_countries:
  assumes "years_map sel' = years_map sel" and "metric sel' = metric sel"
    and "metrics sel' = metrics sel \<or>
         (metrics sel \<noteq> [] \<and> set (metrics sel) \<subseteq> set (columns table) \<and>
          metrics sel' \<noteq> [] \<and> set (metrics sel') \<subseteq> set (columns table))"
  shows "fst (app argsort table sel') = fst (app argsort table sel) \<and>
         map_outputs (snd (app argsort table sel')) = map_outputs (snd (app argsort table sel))"
proof (cases "metrics sel' = metrics sel")
  case True
  with assms(1,2) app_related [of sel' sel argsort table] show ?thesis
    by (simp add: rel_table_def same_table_def)
next
  case False
  with assms(3) have c: "fst (run_stmts (first_pass sel) (load_data table)) = None"
    and c': "fst (run_stmts (first_pass sel') (load_data table)) = None"
    by (simp_all add: first_pass_completes_iff)
  obtain s where s: "run_stmts (first_pass sel') (load_data table) = (None, s)"
    using c' by (cases "run_stmts (first_pass sel') (load_data table)") simp
  obtain t where t: "run_stmts (first_pass sel) (load_data table) = (None, t)"
    using c by (cases "run_stmts (first_pass sel) (load_data table)") simp
  have "rel_table s (snd (stmt_filter sel' (load_data table)))"
    using first_pass_completed [OF c'] s by simp
  moreover have "rel_table (snd (stmt_filter sel' (load_data table)))
      (snd (stmt_filter sel (load_data table)))"
    using rel_filter [OF rel_table_load, of sel' table sel] by simp
  moreover have "rel_table (snd (stmt_filter sel (load_data table))) t"
    using first_pass_completed [OF c] t by (simp add: rel_table_sym)
  ultimately have r: "rel_table s t"
    by (blast intro: rel_table_trans)
  from rel_second_pass [OF assms(1,2) r, of argsort] s t show ?thesis
    by (simp add: app_def run_stmts_append rel_table_def same_table_def)
qed

theorem second_pass_ignores_countries_witness:
  "years_map tertiary_selection = years_map default_selection \<and>
   metric tertiary_selection = metric default_selection \<and>
   metrics default_selection \<noteq> [] \<and>
   set (metrics default_selection) \<subseteq> set (columns education_table) \<and>
   metrics tertiary_selection \<noteq> [] \<and>
   set (metrics tertiary_selection) \<subseteq> set (columns education_table) \<and>
   countries tertiary_selection \<noteq> countries default_selection \<and>
   fst (app npy_aquicksort education_table tertiary_selection) =
     fst (app npy_aquicksort education_table default_selection) \<and>
   map_outputs (snd (app npy_aquicksort education_table tertiary_selection)) =
     map_outputs (snd (app npy_aquicksort education_table default_selection))"
  using second_pass_ignores_countries [of tertiary_selection default_selection education_table
      npy_aquicksort]
  by (simp add: tertiary_selection_def default_selection_def education_table_def)

section \<open>The loaded table is not modified\<close>

text \<open>
  C10. After a run of \<^verbatim>\<open>app.py\<close>, complete or ended by an exception, \<^verbatim>\<open>data\<close> is bound
  to the same object as after the load and that object is the loaded table, rows,
  columns and order: line 141 writes the column \<^verbatim>\<open>composite_metric\<close> into the filtered
  copy only. \<^verbatim>\<open>heatmap.py\<close> has no assignment into a frame.
\<close>

theorem table_not_mutated:
  "data_var (snd (app argsort table sel)) = data_var (load_data table) \<and>
   heap (snd (app argsort table sel)) (data_var (load_data table)) = table"
proof -
  have "table_kept table (snd (app argsort table sel))"
    unfolding app_def
  proof (rule run_stmts_invariant [where I = "table_kept table"])
    fix f st
    assume "f \<in> set (first_pass sel @ second_pass argsort sel)"
      and "table_kept table st"
    then show "table_kept table (snd (f st))"
      using table_kept_filter table_kept_columns table_kept_metric table_kept_charts
        table_kept_filter_years table_kept_heatmap table_kept_composite table_kept_top_10
      by (auto simp: first_pass_def second_pass_def)
  next
    show "table_kept table (load_data table)"
      by (rule table_kept_load)
  qed
  then show ?thesis
    by (simp add: table_kept_def load_data_def)
qed

end
